theory Spec2Isabelle
  imports Main "HOL-Library.Multiset" "HOL-Library.AList"
begin

section \<open>The connection hub of \<^verbatim>\<open>src/services/mcp/McpHub.ts\<close>\<close>

text \<open>
  The class \<^verbatim>\<open>McpHub\<close> is embedded as functions on an explicit hub state. Every
  method takes the state and returns the new one, together with its result when it has
  one; a method that can throw returns \<open>error + 'a\<close> with \<open>Inl\<close> for the thrown error.
  What the hub does to its collaborators (the protocol client, the transports, the
  settings file, the console, the webview) is recorded, in order, in the field
  \<open>trace\<close>. What the collaborators answer is read from a record of oracles, \<open>env\<close>.
\<close>

subsection \<open>Data\<close>

datatype error = Error string

type_synonym 'a result = "error + 'a"

text \<open>
  A server configuration is the JSON object of one entry of \<^verbatim>\<open>mcpServers\<close>: every
  field may be absent. The same type serves for the raw entry of the settings file and
  for the entry after schema validation (\<^verbatim>\<open>./schemas\<close> is not part of the sources, its
  two parsers are oracles of \<open>env\<close>).
\<close>

text \<open>
  The value of the key \<^verbatim>\<open>autoApprove\<close> of an entry. The settings file is raw JSON, so
  the value need not be an array of strings: it is an array (the model keeps its strings,
  no other element compares equal to a tool name), a string, or another value that is
  not falsy. An absent key and the falsy values \<^verbatim>\<open>null\<close>, \<^verbatim>\<open>false\<close>, \<^verbatim>\<open>0\<close> and
  \<^verbatim>\<open>""\<close> are \<open>None\<close> in the record.
\<close>

datatype approve_value = ApproveArray "string list" | ApproveString string | ApproveOther

record server_config =
  cfg_type :: "string option"
  cfg_command :: "string option"
  cfg_args :: "string list option"
  cfg_cwd :: "string option"
  cfg_env :: "(string \<times> string) list option"
  cfg_url :: "string option"
  cfg_headers :: "(string \<times> string) list option"
  cfg_disabled :: "bool option"
  cfg_timeout :: "int option"
  cfg_autoApprove :: "approve_value option"

text \<open>
  \<^verbatim>\<open>JSON.stringify(config)\<close> and \<^verbatim>\<open>JSON.parse\<close> of the stored text: the text is kept
  as the value it denotes, and \<^verbatim>\<open>deepEqual\<close> is equality of these values.
\<close>

datatype json_text = JsonText server_config

fun JSON_stringify :: "server_config \<Rightarrow> json_text" where
  "JSON_stringify c = JsonText c"

fun JSON_parse :: "json_text \<Rightarrow> server_config" where
  "JSON_parse (JsonText c) = c"

definition deepEqual :: "server_config \<Rightarrow> server_config \<Rightarrow> bool" where
  "deepEqual a b = (a = b)"

datatype status = connecting | connected | disconnected

record McpTool =
  tool_name :: string
  tool_autoApprove :: "bool option"

datatype McpResource = McpResource string

datatype McpResourceTemplate = McpResourceTemplate string

record McpServer =
  name :: string
  config :: json_text
  status :: status
  error :: "string option"
  disabled :: "bool option"
  tools :: "McpTool list option"
  resources :: "McpResource list option"
  resourceTemplates :: "McpResourceTemplate list option"

datatype Client = Client string

datatype Transport =
    StdioClientTransport "string option" "string list option"
  | SSEClientTransport string
  | StreamableHTTPClientTransport string

text \<open>\<open>client\<close> and \<open>transport\<close> are \<open>None\<close> where the source stores \<^verbatim>\<open>null\<close>.\<close>

record McpConnection =
  server :: McpServer
  client :: "Client option"
  transport :: "Transport option"

record notification =
  n_serverName :: string
  n_level :: string
  n_message :: string
  n_timestamp :: nat

text \<open>
  The content of the settings file: text that \<^verbatim>\<open>JSON.parse\<close> rejects, or a JSON
  object whose key \<^verbatim>\<open>mcpServers\<close> is absent or holds the entries in key order.
\<close>

datatype file_content = NotJson | Json "(string \<times> server_config) list option"

datatype source = rpc | internal

datatype event =
    ConsoleError string
  | ShowMessage string
  | WriteFile file_content
  | TransportStart string
  | TransportClose string
  | ClientConnect string
  | ClientClose string
  | ClientRequest string string
  | NotificationCallback nat string string string
  | PostMessageToWebview string string string string
  | SendMcpServersUpdate "McpServer list"

record hub =
  connections :: "McpConnection list"
  isConnecting :: bool
  pendingNotifications :: "notification list"
  notificationCallback :: "nat option"
  fileWatchers :: "(string \<times> string) list"
  clientVersion :: string
  settingsFile :: "file_content option"
  trace :: "event list"

text \<open>
  The answers of the collaborators. An error message stands for a call that throws,
  \<open>None\<close> for one that returns.
\<close>

record env =
  transport_start :: "string \<Rightarrow> string option"
  new_URL :: "string \<Rightarrow> bool"
  client_connect :: "string \<Rightarrow> string option"
  transport_close :: "string \<Rightarrow> string option"
  client_close :: "string \<Rightarrow> string option"
  tools_list :: "string \<Rightarrow> McpTool list option"
  resources_list :: "string \<Rightarrow> McpResource list option"
  templates_list :: "string \<Rightarrow> McpResourceTemplate list option"
  resources_read :: "string \<Rightarrow> string \<Rightarrow> string result"
  tools_call :: "string \<Rightarrow> string \<Rightarrow> string list option result"
  McpSettingsSchema :: "(string \<times> server_config) list option \<Rightarrow> (string \<times> server_config) list option"
  ServerConfigSchema :: "server_config \<Rightarrow> server_config option"
  url_valid :: "string \<Rightarrow> bool"

subsection \<open>Small helpers of the language\<close>

text \<open>Truthiness of an optional boolean and of an optional string.\<close>

definition truthy :: "bool option \<Rightarrow> bool" where
  "truthy b = (b = Some True)"

definition or_else :: "string option \<Rightarrow> string \<Rightarrow> string" where
  "or_else x d = (case x of None \<Rightarrow> d | Some v \<Rightarrow> if v = [] then d else v)"

text \<open>\<^verbatim>\<open>Array.prototype.indexOf\<close>: the first position, or \<open>-1\<close>.\<close>

fun indexOf :: "'a list \<Rightarrow> 'a \<Rightarrow> int" where
  "indexOf [] x = -1"
| "indexOf (y # ys) x =
     (if y = x then 0 else (let i = indexOf ys x in if i = -1 then -1 else i + 1))"

text \<open>\<^verbatim>\<open>xs.splice(i, 1)\<close> for an index inside the array.\<close>

definition splice1 :: "int \<Rightarrow> 'a list \<Rightarrow> 'a list" where
  "splice1 i xs = take (nat i) xs @ drop (nat i + 1) xs"

text \<open>\<^verbatim>\<open>String.prototype.includes\<close>.\<close>

fun str_includes :: "string \<Rightarrow> string \<Rightarrow> bool" where
  "str_includes [] sub = (sub = [])"
| "str_includes (c # cs) sub = (take (length sub) (c # cs) = sub \<or> str_includes cs sub)"

text \<open>\<^verbatim>\<open>String.prototype.indexOf\<close>: the first position of the substring, or \<open>-1\<close>.\<close>

fun str_indexOf :: "string \<Rightarrow> string \<Rightarrow> int" where
  "str_indexOf [] sub = (if sub = [] then 0 else -1)"
| "str_indexOf (c # cs) sub =
     (if take (length sub) (c # cs) = sub then 0
      else (let i = str_indexOf cs sub in if i = -1 then -1 else i + 1))"

text \<open>The elements of a \<^verbatim>\<open>Set\<close> built from a list, in insertion order.\<close>

fun set_order :: "'a list \<Rightarrow> 'a list" where
  "set_order [] = []"
| "set_order (x # xs) = x # filter (\<lambda>y. y \<noteq> x) (set_order xs)"

text \<open>
  An object found with \<^verbatim>\<open>find\<close> and then assigned to: the first element satisfying
  the predicate is replaced.
\<close>

fun update_first :: "('a \<Rightarrow> bool) \<Rightarrow> ('a \<Rightarrow> 'a) \<Rightarrow> 'a list \<Rightarrow> 'a list" where
  "update_first P f [] = []"
| "update_first P f (x # xs) = (if P x then f x # xs else x # update_first P f xs)"

definition named :: "string \<Rightarrow> McpConnection \<Rightarrow> bool" where
  "named nm conn = (name (server conn) = nm)"

definition emit :: "event \<Rightarrow> hub \<Rightarrow> hub" where
  "emit ev h = h\<lparr>trace := trace h @ [ev]\<rparr>"

definition update_connection :: "string \<Rightarrow> (McpConnection \<Rightarrow> McpConnection) \<Rightarrow> hub \<Rightarrow> hub" where
  "update_connection nm f h = h\<lparr>connections := update_first (named nm) f (connections h)\<rparr>"

subsection \<open>The settings file\<close>

definition template :: file_content where
  "template = Json (Some [])"

text \<open>\<^verbatim>\<open>getMcpSettingsFilePath\<close>: a missing file is created with the empty template.\<close>

definition getMcpSettingsFilePath :: "hub \<Rightarrow> hub" where
  "getMcpSettingsFilePath h =
     (case settingsFile h of
        None \<Rightarrow> emit (WriteFile template) (h\<lparr>settingsFile := Some template\<rparr>)
      | Some c \<Rightarrow> h)"

text \<open>\<^verbatim>\<open>fs.readFile\<close> of the settings file after \<^verbatim>\<open>getMcpSettingsFilePath\<close>.\<close>

definition readFile :: "hub \<Rightarrow> file_content" where
  "readFile h = (case settingsFile h of None \<Rightarrow> NotJson | Some c \<Rightarrow> c)"

text \<open>What a read of the settings file returns, the file being created when missing.\<close>

abbreviation ensured :: "hub \<Rightarrow> file_content" where
  "ensured h \<equiv> readFile (getMcpSettingsFilePath h)"

definition writeFile :: "file_content \<Rightarrow> hub \<Rightarrow> hub" where
  "writeFile c h = emit (WriteFile c) (h\<lparr>settingsFile := Some c\<rparr>)"

definition json_syntax_error :: error where
  "json_syntax_error = Error ''Unexpected token in JSON''"

definition type_error :: error where
  "type_error = Error ''Cannot read properties of undefined''"

text \<open>
  \<^verbatim>\<open>readAndValidateMcpSettingsFile\<close>: \<open>None\<close> is the source's \<^verbatim>\<open>undefined\<close>, and a
  message is shown for text that is not JSON and for JSON the schema rejects.
\<close>

definition readAndValidateMcpSettingsFile ::
  "env \<Rightarrow> hub \<Rightarrow> (string \<times> server_config) list option \<times> hub" where
  "readAndValidateMcpSettingsFile ev h =
     (let h1 = getMcpSettingsFilePath h in
      case readFile h1 of
        NotJson \<Rightarrow>
          (None, emit (ShowMessage
             ''Invalid MCP settings format. Please ensure your settings follow the correct JSON format.'') h1)
      | Json ms \<Rightarrow>
          (case McpSettingsSchema ev ms of
             None \<Rightarrow> (None, emit (ShowMessage ''Invalid MCP settings schema.'') h1)
           | Some data \<Rightarrow> (Some data, h1)))"

subsection \<open>Looking up and creating connections\<close>

definition findConnection :: "string \<Rightarrow> source \<Rightarrow> hub \<Rightarrow> McpConnection option" where
  "findConnection nm src h = find (named nm) (connections h)"

definition appendErrorMessage :: "McpConnection \<Rightarrow> string \<Rightarrow> McpConnection" where
  "appendErrorMessage conn err =
     conn\<lparr>server := (server conn)\<lparr>error :=
       Some (case error (server conn) of
               None \<Rightarrow> err
             | Some old \<Rightarrow> if old = [] then err else old @ [CHR 0x0A] @ err)\<rparr>\<rparr>"

text \<open>\<^verbatim>\<open>x || []\<close> for the value of \<^verbatim>\<open>autoApprove\<close>.\<close>

definition or_empty :: "approve_value option \<Rightarrow> approve_value" where
  "or_empty v =
     (case v of
        None \<Rightarrow> ApproveArray []
      | Some x \<Rightarrow> if x = ApproveString [] then ApproveArray [] else x)"

text \<open>\<^verbatim>\<open>config.mcpServers[serverName]?.autoApprove || []\<close>.\<close>

definition autoApproveConfig :: "(string \<times> server_config) list \<Rightarrow> string \<Rightarrow> approve_value" where
  "autoApproveConfig servers nm =
     (case map_of servers nm of
        None \<Rightarrow> ApproveArray []
      | Some entry \<Rightarrow> or_empty (cfg_autoApprove entry))"

text \<open>
  \<^verbatim>\<open>autoApprove.includes(tool.name)\<close>: membership for an array, the substring test for a
  string, and a \<^verbatim>\<open>TypeError\<close> (\<open>None\<close>) for a value that has no \<^verbatim>\<open>includes\<close>.
\<close>

definition includes_name :: "approve_value \<Rightarrow> string \<Rightarrow> bool option" where
  "includes_name v t =
     (case v of
        ApproveArray l \<Rightarrow> Some (t \<in> set l)
      | ApproveString s \<Rightarrow> Some (str_includes s t)
      | ApproveOther \<Rightarrow> None)"

text \<open>The \<^verbatim>\<open>map\<close> that marks each tool; \<open>None\<close> when a call of \<^verbatim>\<open>includes\<close> throws.\<close>

fun mark_tools :: "approve_value \<Rightarrow> McpTool list \<Rightarrow> McpTool list option" where
  "mark_tools v [] = Some []"
| "mark_tools v (t # ts) =
     (case includes_name v (tool_name t) of
        None \<Rightarrow> None
      | Some b \<Rightarrow>
          (case mark_tools v ts of
             None \<Rightarrow> None
           | Some marked \<Rightarrow> Some (t\<lparr>tool_autoApprove := Some b\<rparr> # marked)))"

text \<open>
  What \<open>fetchToolsList\<close> does with the answer of \<^verbatim>\<open>tools/list\<close>: it parses the content
  of the settings file, looks the auto-approve value of the server up and marks the
  tools. \<open>None\<close> when one of these steps throws.
\<close>

definition annotate :: "file_content \<Rightarrow> string \<Rightarrow> McpTool list \<Rightarrow> McpTool list option" where
  "annotate content nm ts =
     (case content of
        NotJson \<Rightarrow> None
      | Json None \<Rightarrow> None
      | Json (Some servers) \<Rightarrow> mark_tools (autoApproveConfig servers nm) ts)"

definition fetchToolsList :: "env \<Rightarrow> string \<Rightarrow> hub \<Rightarrow> McpTool list \<times> hub" where
  "fetchToolsList ev nm h =
     (case find (named nm) (connections h) of
        None \<Rightarrow> ([], emit (ConsoleError (''Failed to fetch tools for '' @ nm @ '':'')) h)
      | Some conn \<Rightarrow>
          if truthy (disabled (server conn)) \<or> client conn = None then ([], h)
          else
            (let h1 = emit (ClientRequest nm ''tools/list'') h in
             case tools_list ev nm of
               None \<Rightarrow> ([], emit (ConsoleError (''Failed to fetch tools for '' @ nm @ '':'')) h1)
             | Some ts \<Rightarrow>
                 (let h2 = getMcpSettingsFilePath h1 in
                  case annotate (readFile h2) nm ts of
                    None \<Rightarrow> ([], emit (ConsoleError (''Failed to fetch tools for '' @ nm @ '':'')) h2)
                  | Some marked \<Rightarrow> (marked, h2))))"

definition fetchResourcesList :: "env \<Rightarrow> string \<Rightarrow> hub \<Rightarrow> McpResource list \<times> hub" where
  "fetchResourcesList ev nm h =
     (case find (named nm) (connections h) of
        None \<Rightarrow> ([], h)
      | Some conn \<Rightarrow>
          if truthy (disabled (server conn)) \<or> client conn = None then ([], h)
          else
            (let h1 = emit (ClientRequest nm ''resources/list'') h in
             case resources_list ev nm of
               None \<Rightarrow> ([], h1)
             | Some rs \<Rightarrow> (rs, h1)))"

definition fetchResourceTemplatesList ::
  "env \<Rightarrow> string \<Rightarrow> hub \<Rightarrow> McpResourceTemplate list \<times> hub" where
  "fetchResourceTemplatesList ev nm h =
     (case find (named nm) (connections h) of
        None \<Rightarrow> ([], h)
      | Some conn \<Rightarrow>
          if truthy (disabled (server conn)) \<or> client conn = None then ([], h)
          else
            (let h1 = emit (ClientRequest nm ''resources/templates/list'') h in
             case templates_list ev nm of
               None \<Rightarrow> ([], h1)
             | Some rs \<Rightarrow> (rs, h1)))"

text \<open>
  The \<^verbatim>\<open>switch (config.type)\<close> of \<^verbatim>\<open>connectToServer\<close>: the stdio transport is
  started here, the two network transports parse their URL here, any other type throws.
\<close>

definition make_transport :: "env \<Rightarrow> string \<Rightarrow> server_config \<Rightarrow> hub \<Rightarrow> Transport result \<times> hub" where
  "make_transport ev nm cfg h =
     (if cfg_type cfg = Some ''stdio'' then
        (let h1 = emit (TransportStart nm) h in
         case transport_start ev nm of
           Some msg \<Rightarrow> (Inl (Error msg), h1)
         | None \<Rightarrow> (Inr (StdioClientTransport (cfg_command cfg) (cfg_args cfg)), h1))
      else if cfg_type cfg = Some ''sse'' then
        (case cfg_url cfg of
           None \<Rightarrow> (Inl (Error ''Invalid URL''), h)
         | Some u \<Rightarrow> if new_URL ev u then (Inr (SSEClientTransport u), h)
                     else (Inl (Error ''Invalid URL''), h))
      else if cfg_type cfg = Some ''streamableHttp'' then
        (case cfg_url cfg of
           None \<Rightarrow> (Inl (Error ''Invalid URL''), h)
         | Some u \<Rightarrow> if new_URL ev u then (Inr (StreamableHTTPClientTransport u), h)
                     else (Inl (Error ''Invalid URL''), h))
      else (Inl (Error (''Unknown transport type: '' @
              (case cfg_type cfg of None \<Rightarrow> ''undefined'' | Some t \<Rightarrow> t))), h))"

text \<open>
  The two object literals of \<^verbatim>\<open>connectToServer\<close>: the connection pushed before the
  handshake, and the entry of a disabled server.
\<close>

definition new_connection :: "string \<Rightarrow> server_config \<Rightarrow> Client \<Rightarrow> Transport \<Rightarrow> McpConnection" where
  "new_connection nm cfg cl tr =
     \<lparr>server = \<lparr>name = nm, config = JSON_stringify cfg, status = connecting, error = None,
                disabled = cfg_disabled cfg, tools = None, resources = None,
                resourceTemplates = None\<rparr>,
      client = Some cl, transport = Some tr\<rparr>"

definition disabledConnection :: "string \<Rightarrow> server_config \<Rightarrow> McpConnection" where
  "disabledConnection nm cfg =
     \<lparr>server = \<lparr>name = nm, config = JSON_stringify cfg, status = disconnected, error = None,
                disabled = Some True, tools = None, resources = None,
                resourceTemplates = None\<rparr>,
      client = None, transport = None\<rparr>"

text \<open>The assignments to the fields of \<^verbatim>\<open>connection.server\<close>.\<close>

definition set_connected :: "McpConnection \<Rightarrow> McpConnection" where
  "set_connected c = c\<lparr>server := (server c)\<lparr>status := connected, error := Some []\<rparr>\<rparr>"

definition set_disconnected :: "McpConnection \<Rightarrow> McpConnection" where
  "set_disconnected c = c\<lparr>server := (server c)\<lparr>status := disconnected\<rparr>\<rparr>"

definition set_tools :: "McpTool list \<Rightarrow> McpConnection \<Rightarrow> McpConnection" where
  "set_tools ts c = c\<lparr>server := (server c)\<lparr>tools := Some ts\<rparr>\<rparr>"

definition set_resources :: "McpResource list \<Rightarrow> McpConnection \<Rightarrow> McpConnection" where
  "set_resources rs c = c\<lparr>server := (server c)\<lparr>resources := Some rs\<rparr>\<rparr>"

definition set_resourceTemplates :: "McpResourceTemplate list \<Rightarrow> McpConnection \<Rightarrow> McpConnection" where
  "set_resourceTemplates rts c = c\<lparr>server := (server c)\<lparr>resourceTemplates := Some rts\<rparr>\<rparr>"

definition set_disabled :: "bool \<Rightarrow> McpConnection \<Rightarrow> McpConnection" where
  "set_disabled b c = c\<lparr>server := (server c)\<lparr>disabled := Some b\<rparr>\<rparr>"

text \<open>
  The body of the \<^verbatim>\<open>try\<close> block of \<^verbatim>\<open>connectToServer\<close>. The pushed connection is
  the only entry of its name (the caller has filtered the name out), so the assignments
  through the local variable \<^verbatim>\<open>connection\<close> are updates of the entry of that name.
\<close>

definition connect_body :: "env \<Rightarrow> string \<Rightarrow> server_config \<Rightarrow> hub \<Rightarrow> unit result \<times> hub" where
  "connect_body ev nm cfg h =
     (case make_transport ev nm cfg h of
        (Inl e, h1) \<Rightarrow> (Inl e, h1)
      | (Inr tr, h1) \<Rightarrow>
          (let connection = new_connection nm cfg (Client (clientVersion h1)) tr;
               h2 = h1\<lparr>connections := connections h1 @ [connection]\<rparr>;
               h3 = emit (ClientConnect nm) h2
           in case client_connect ev nm of
                Some msg \<Rightarrow> (Inl (Error msg), h3)
              | None \<Rightarrow>
                  (let h4 = update_connection nm set_connected h3;
                       (ts, h5) = fetchToolsList ev nm h4;
                       h6 = update_connection nm (set_tools ts) h5;
                       (rs, h7) = fetchResourcesList ev nm h6;
                       h8 = update_connection nm (set_resources rs) h7;
                       (rts, h9) = fetchResourceTemplatesList ev nm h8;
                       h10 = update_connection nm (set_resourceTemplates rts) h9
                   in (Inr (), h10))))"

definition connectToServer ::
  "env \<Rightarrow> string \<Rightarrow> server_config \<Rightarrow> source \<Rightarrow> hub \<Rightarrow> unit result \<times> hub" where
  "connectToServer ev nm cfg src h =
     (let h0 = h\<lparr>connections := filter (\<lambda>conn. name (server conn) \<noteq> nm) (connections h)\<rparr> in
      if truthy (cfg_disabled cfg) then
        (Inr (), h0\<lparr>connections := connections h0 @ [disabledConnection nm cfg]\<rparr>)
      else
        (case connect_body ev nm cfg h0 of
           (Inr u, h1) \<Rightarrow> (Inr u, h1)
         | (Inl (Error msg), h1) \<Rightarrow>
             (Inl (Error msg),
              (case findConnection nm src h1 of
                 None \<Rightarrow> h1
               | Some connection \<Rightarrow>
                   update_connection nm
                     (\<lambda>c. appendErrorMessage (set_disconnected c) msg) h1))))"

text \<open>
  \<^verbatim>\<open>deleteConnection\<close>. The two \<^verbatim>\<open>close\<close> calls share one \<^verbatim>\<open>try\<close> block:
  \<open>close_both\<close> is that block, and the \<^verbatim>\<open>catch\<close> logs its error.
\<close>

definition close_both :: "env \<Rightarrow> string \<Rightarrow> McpConnection \<Rightarrow> hub \<Rightarrow> unit result \<times> hub" where
  "close_both ev nm connection h =
     (let (r1, h1) =
            (case transport connection of
               None \<Rightarrow> (Inr (), h)
             | Some tr \<Rightarrow>
                 (case transport_close ev nm of
                    Some msg \<Rightarrow> (Inl (Error msg), emit (TransportClose nm) h)
                  | None \<Rightarrow> (Inr (), emit (TransportClose nm) h)))
      in case r1 of
           Inl e \<Rightarrow> (Inl e, h1)
         | Inr u \<Rightarrow>
             (case client connection of
                None \<Rightarrow> (Inr (), h1)
              | Some cl \<Rightarrow>
                  (case client_close ev nm of
                     Some msg \<Rightarrow> (Inl (Error msg), emit (ClientClose nm) h1)
                   | None \<Rightarrow> (Inr (), emit (ClientClose nm) h1))))"

definition deleteConnection :: "env \<Rightarrow> string \<Rightarrow> hub \<Rightarrow> hub" where
  "deleteConnection ev nm h =
     (case find (named nm) (connections h) of
        None \<Rightarrow> h
      | Some connection \<Rightarrow>
          (let h2 = (case close_both ev nm connection h of
                       (Inl e, h1) \<Rightarrow> emit (ConsoleError (''Failed to close transport for '' @ nm @ '':'')) h1
                     | (Inr u, h1) \<Rightarrow> h1)
           in h2\<lparr>connections := filter (\<lambda>conn. name (server conn) \<noteq> nm) (connections h2)\<rparr>))"

subsection \<open>File watchers\<close>

definition setupFileWatcher :: "string \<Rightarrow> server_config \<Rightarrow> hub \<Rightarrow> hub" where
  "setupFileWatcher nm cfg h =
     (case find (\<lambda>arg. str_includes arg ''build/index.js'')
             (case cfg_args cfg of None \<Rightarrow> [] | Some as \<Rightarrow> as) of
        None \<Rightarrow> h
      | Some filePath \<Rightarrow> h\<lparr>fileWatchers := AList.update nm filePath (fileWatchers h)\<rparr>)"

definition removeAllFileWatchers :: "hub \<Rightarrow> hub" where
  "removeAllFileWatchers h = h\<lparr>fileWatchers := []\<rparr>"

subsection \<open>The sorted listing\<close>

text \<open>
  \<^verbatim>\<open>getSortedMcpServers\<close>: \<^verbatim>\<open>Array.prototype.sort\<close> is stable, and the comparator
  \<^verbatim>\<open>indexA - indexB\<close> orders by the key \<open>indexOf serverOrder\<close>; \<open>sort_key\<close> is the
  stable sort by that key.
\<close>

definition getSortedMcpServers :: "string list \<Rightarrow> hub \<Rightarrow> McpServer list" where
  "getSortedMcpServers serverOrder h =
     map server (sort_key (\<lambda>conn. indexOf serverOrder (name (server conn))) (connections h))"

definition keys_of :: "(string \<times> server_config) list option \<Rightarrow> string list" where
  "keys_of ms = map fst (case ms of None \<Rightarrow> [] | Some l \<Rightarrow> l)"

definition notifyWebviewOfServerChanges :: "hub \<Rightarrow> unit result \<times> hub" where
  "notifyWebviewOfServerChanges h =
     (let h1 = getMcpSettingsFilePath h in
      case readFile h1 of
        NotJson \<Rightarrow> (Inl json_syntax_error, h1)
      | Json ms \<Rightarrow>
          (Inr (), emit (SendMcpServersUpdate (getSortedMcpServers (keys_of ms) h1)) h1))"

definition getLatestMcpServersRPC :: "env \<Rightarrow> hub \<Rightarrow> McpServer list \<times> hub" where
  "getLatestMcpServersRPC ev h =
     (case readAndValidateMcpSettingsFile ev h of
        (None, h1) \<Rightarrow> ([], h1)
      | (Some data, h1) \<Rightarrow> (getSortedMcpServers (map fst data) h1, h1))"

subsection \<open>Reconciliation\<close>

text \<open>The first loop of \<^verbatim>\<open>updateServerConnections\<close>, over the set of current names.\<close>

fun delete_removed :: "env \<Rightarrow> string list \<Rightarrow> string list \<Rightarrow> hub \<Rightarrow> hub" where
  "delete_removed ev newNames [] h = h"
| "delete_removed ev newNames (nm # rest) h =
     delete_removed ev newNames rest
       (if nm \<notin> set newNames then deleteConnection ev nm h else h)"

text \<open>The body of the second loop, for one entry of \<^verbatim>\<open>newServers\<close>.\<close>

definition update_or_add :: "env \<Rightarrow> source \<Rightarrow> string \<times> server_config \<Rightarrow> hub \<Rightarrow> hub" where
  "update_or_add ev src entry h =
     (case entry of (nm, cfg) \<Rightarrow>
        (case find (named nm) (connections h) of
           None \<Rightarrow>
             (let h1 = (if cfg_type cfg = Some ''stdio'' then setupFileWatcher nm cfg h else h) in
              case connectToServer ev nm cfg src h1 of
                (Inl e, h2) \<Rightarrow> emit (ConsoleError (''Failed to connect to new MCP server '' @ nm @ '':'')) h2
              | (Inr u, h2) \<Rightarrow> h2)
         | Some currentConnection \<Rightarrow>
             if \<not> deepEqual (JSON_parse (config (server currentConnection))) cfg then
               (let h1 = (if cfg_type cfg = Some ''stdio'' then setupFileWatcher nm cfg h else h);
                    h2 = deleteConnection ev nm h1
                in case connectToServer ev nm cfg src h2 of
                     (Inl e, h3) \<Rightarrow> emit (ConsoleError (''Failed to reconnect MCP server '' @ nm @ '':'')) h3
                   | (Inr u, h3) \<Rightarrow> h3)
             else h))"

definition reconcile :: "env \<Rightarrow> source \<Rightarrow> (string \<times> server_config) list \<Rightarrow> hub \<Rightarrow> hub" where
  "reconcile ev src newServers h =
     (let h1 = removeAllFileWatchers (h\<lparr>isConnecting := True\<rparr>);
          currentNames = set_order (map (\<lambda>conn. name (server conn)) (connections h1));
          newNames = map fst newServers;
          h2 = delete_removed ev newNames currentNames h1
      in fold (update_or_add ev src) newServers h2)"

definition updateServerConnectionsRPC :: "env \<Rightarrow> (string \<times> server_config) list \<Rightarrow> hub \<Rightarrow> hub" where
  "updateServerConnectionsRPC ev newServers h =
     (reconcile ev rpc newServers h)\<lparr>isConnecting := False\<rparr>"

definition updateServerConnections ::
  "env \<Rightarrow> (string \<times> server_config) list \<Rightarrow> hub \<Rightarrow> unit result \<times> hub" where
  "updateServerConnections ev newServers h =
     (case notifyWebviewOfServerChanges (reconcile ev internal newServers h) of
        (Inl e, h1) \<Rightarrow> (Inl e, h1)
      | (Inr u, h1) \<Rightarrow> (Inr (), h1\<lparr>isConnecting := False\<rparr>))"

subsection \<open>Server management\<close>

definition quoted :: "string \<Rightarrow> string" where
  "quoted s = [CHR 0x22] @ s @ [CHR 0x22]"

definition toggle_failed :: "error \<Rightarrow> hub \<Rightarrow> 'a result \<times> hub" where
  "toggle_failed e h =
     (Inl e,
      emit (ShowMessage (''Failed to update server state: '' @ (case e of Error msg \<Rightarrow> msg)))
        (emit (ConsoleError ''Failed to update server disabled state:'') h))"

definition toggleServerDisabledRPC ::
  "env \<Rightarrow> string \<Rightarrow> bool \<Rightarrow> hub \<Rightarrow> McpServer list result \<times> hub" where
  "toggleServerDisabledRPC ev serverName dis h =
     (case readAndValidateMcpSettingsFile ev h of
        (None, h1) \<Rightarrow> toggle_failed (Error ''Failed to read or validate MCP settings'') h1
      | (Some servers, h1) \<Rightarrow>
          (case map_of servers serverName of
             Some entry \<Rightarrow>
               (let servers' = AList.update serverName (entry\<lparr>cfg_disabled := Some dis\<rparr>) servers;
                    h2 = writeFile (Json (Some servers')) (getMcpSettingsFilePath h1);
                    h3 = update_connection serverName (set_disabled dis) h2
                in (Inr (getSortedMcpServers (map fst servers') h3), h3))
           | None \<Rightarrow>
               toggle_failed
                 (Error (''Server '' @ quoted serverName @ '' not found in MCP configuration''))
                 (emit (ConsoleError
                    (''Server '' @ quoted serverName @ '' not found in MCP configuration'')) h1)))"

subsection \<open>Invocation\<close>

definition readResource :: "env \<Rightarrow> string \<Rightarrow> string \<Rightarrow> hub \<Rightarrow> string result \<times> hub" where
  "readResource ev serverName uri h =
     (case find (named serverName) (connections h) of
        None \<Rightarrow> (Inl (Error (''No connection found for server: '' @ serverName)), h)
      | Some connection \<Rightarrow>
          if truthy (disabled (server connection)) then
            (Inl (Error (''Server '' @ quoted serverName @ '' is disabled'')), h)
          else
            (case client connection of
               None \<Rightarrow> (Inl type_error, h)
             | Some cl \<Rightarrow>
                 (resources_read ev serverName uri,
                  emit (ClientRequest serverName ''resources/read'') h)))"

definition callTool :: "env \<Rightarrow> string \<Rightarrow> string \<Rightarrow> hub \<Rightarrow> string list result \<times> hub" where
  "callTool ev serverName toolName h =
     (case find (named serverName) (connections h) of
        None \<Rightarrow>
          (Inl (Error (''No connection found for server: '' @ serverName @
             ''. Please make sure to use MCP servers available under 'Connected MCP Servers'.'')), h)
      | Some connection \<Rightarrow>
          if truthy (disabled (server connection)) then
            (Inl (Error (''Server '' @ quoted serverName @ '' is disabled and cannot be used'')), h)
          else
            (let h1 = (case ServerConfigSchema ev (JSON_parse (config (server connection))) of
                         None \<Rightarrow> emit (ConsoleError
                           (''Failed to parse timeout configuration for server '' @ serverName)) h
                       | Some parsedConfig \<Rightarrow> h)
             in case client connection of
                  None \<Rightarrow> (Inl type_error, h1)
                | Some cl \<Rightarrow>
                    (let h2 = emit (ClientRequest serverName ''tools/call'') h1 in
                     case tools_call ev serverName toolName of
                       Inl e \<Rightarrow> (Inl e, h2)
                     | Inr content \<Rightarrow> (Inr (case content of None \<Rightarrow> [] | Some c \<Rightarrow> c), h2))))"

subsection \<open>Auto-approve\<close>

text \<open>
  The three methods the loop calls on the value of \<^verbatim>\<open>autoApprove\<close>. \<open>None\<close> is the
  \<^verbatim>\<open>TypeError\<close> for a value that does not have the method: a string has
  \<^verbatim>\<open>indexOf\<close> but neither \<^verbatim>\<open>push\<close> nor \<^verbatim>\<open>splice\<close>.
\<close>

definition value_indexOf :: "approve_value \<Rightarrow> string \<Rightarrow> int option" where
  "value_indexOf v t =
     (case v of
        ApproveArray l \<Rightarrow> Some (indexOf l t)
      | ApproveString s \<Rightarrow> Some (str_indexOf s t)
      | ApproveOther \<Rightarrow> None)"

definition value_push :: "approve_value \<Rightarrow> string \<Rightarrow> approve_value option" where
  "value_push v t =
     (case v of
        ApproveArray l \<Rightarrow> Some (ApproveArray (l @ [t]))
      | ApproveString s \<Rightarrow> None
      | ApproveOther \<Rightarrow> None)"

definition value_splice :: "int \<Rightarrow> approve_value \<Rightarrow> approve_value option" where
  "value_splice i v =
     (case v of
        ApproveArray l \<Rightarrow> Some (ApproveArray (splice1 i l))
      | ApproveString s \<Rightarrow> None
      | ApproveOther \<Rightarrow> None)"

text \<open>The \<^verbatim>\<open>for\<close> loop over \<^verbatim>\<open>toolNames\<close>, on the value \<^verbatim>\<open>autoApprove\<close>.\<close>

fun toggle_tools :: "bool \<Rightarrow> string list \<Rightarrow> approve_value \<Rightarrow> approve_value option" where
  "toggle_tools shouldAllow [] autoApprove = Some autoApprove"
| "toggle_tools shouldAllow (toolName # rest) autoApprove =
     (case value_indexOf autoApprove toolName of
        None \<Rightarrow> None
      | Some toolIndex \<Rightarrow>
          if shouldAllow \<and> toolIndex = -1 then
            (case value_push autoApprove toolName of
               None \<Rightarrow> None
             | Some pushed \<Rightarrow> toggle_tools shouldAllow rest pushed)
          else if \<not> shouldAllow \<and> toolIndex \<noteq> -1 then
            (case value_splice toolIndex autoApprove of
               None \<Rightarrow> None
             | Some spliced \<Rightarrow> toggle_tools shouldAllow rest spliced)
          else toggle_tools shouldAllow rest autoApprove)"

text \<open>
  What both variants do up to and including \<^verbatim>\<open>fs.writeFile\<close>: the result is the
  new value of \<^verbatim>\<open>autoApprove\<close> and the new entries of the file.
\<close>

definition toggle_write ::
  "string \<Rightarrow> string list \<Rightarrow> bool \<Rightarrow> hub \<Rightarrow>
     (approve_value \<times> (string \<times> server_config) list) result \<times> hub" where
  "toggle_write serverName toolNames shouldAllow h =
     (let h1 = getMcpSettingsFilePath h in
      case readFile h1 of
        NotJson \<Rightarrow> (Inl json_syntax_error, h1)
      | Json None \<Rightarrow> (Inl type_error, h1)
      | Json (Some servers) \<Rightarrow>
          (case map_of servers serverName of
             None \<Rightarrow> (Inl type_error, h1)
           | Some entry \<Rightarrow>
               (case toggle_tools shouldAllow toolNames (or_empty (cfg_autoApprove entry)) of
                  None \<Rightarrow> (Inl type_error, h1)
                | Some autoApprove \<Rightarrow>
                    (let servers' = AList.update serverName
                           (entry\<lparr>cfg_autoApprove := Some autoApprove\<rparr>) servers
                     in (Inr (autoApprove, servers'), writeFile (Json (Some servers')) h1)))))"

definition approve_failed :: "error \<Rightarrow> hub \<Rightarrow> 'a result \<times> hub" where
  "approve_failed e h =
     (Inl e,
      emit (ShowMessage ''Failed to update autoApprove settings'')
        (emit (ConsoleError ''Failed to update autoApprove settings:'') h))"

definition toggleToolAutoApprove ::
  "string \<Rightarrow> string list \<Rightarrow> bool \<Rightarrow> hub \<Rightarrow> unit result \<times> hub" where
  "toggleToolAutoApprove serverName toolNames shouldAllow h =
     (case toggle_write serverName toolNames shouldAllow h of
        (Inl e, h1) \<Rightarrow> approve_failed e h1
      | (Inr (autoApprove, servers'), h2) \<Rightarrow>
          (case find (named serverName) (connections h2) of
             None \<Rightarrow> (Inr (), h2)
           | Some connection \<Rightarrow>
               (case tools (server connection) of
                  None \<Rightarrow> (Inr (), h2)
                | Some ts \<Rightarrow>
                    (case mark_tools autoApprove ts of
                       None \<Rightarrow> approve_failed type_error h2
                     | Some marked \<Rightarrow>
                         (let h3 = update_connection serverName (set_tools marked) h2
                          in case notifyWebviewOfServerChanges h3 of
                               (Inl e, h4) \<Rightarrow> approve_failed e h4
                             | (Inr u, h4) \<Rightarrow> (Inr (), h4))))))"

definition toggleToolAutoApproveRPC ::
  "string \<Rightarrow> string list \<Rightarrow> bool \<Rightarrow> hub \<Rightarrow> McpServer list result \<times> hub" where
  "toggleToolAutoApproveRPC serverName toolNames shouldAllow h =
     (case toggle_write serverName toolNames shouldAllow h of
        (Inl e, h1) \<Rightarrow> (Inl e, emit (ConsoleError ''Failed to update autoApprove settings:'') h1)
      | (Inr (autoApprove, servers'), h2) \<Rightarrow>
          (case find (named serverName) (connections h2) of
             None \<Rightarrow> (Inr (getSortedMcpServers (map fst servers') h2), h2)
           | Some connection \<Rightarrow>
               (case tools (server connection) of
                  None \<Rightarrow> (Inr (getSortedMcpServers (map fst servers') h2), h2)
                | Some ts \<Rightarrow>
                    (case mark_tools autoApprove ts of
                       None \<Rightarrow>
                         (Inl type_error,
                          emit (ConsoleError ''Failed to update autoApprove settings:'') h2)
                     | Some marked \<Rightarrow>
                         (let h3 = update_connection serverName (set_tools marked) h2
                          in (Inr (getSortedMcpServers (map fst servers') h3), h3))))))"

subsection \<open>Adding a remote server\<close>

definition add_failed :: "error \<Rightarrow> hub \<Rightarrow> 'a result \<times> hub" where
  "add_failed e h = (Inl e, emit (ConsoleError ''Failed to add remote MCP server:'') h)"

definition remote_config :: "string \<Rightarrow> server_config" where
  "remote_config serverUrl =
     \<lparr>cfg_type = None, cfg_command = None, cfg_args = None, cfg_cwd = None, cfg_env = None,
      cfg_url = Some serverUrl, cfg_headers = None, cfg_disabled = Some False,
      cfg_timeout = None, cfg_autoApprove = Some (ApproveArray [])\<rparr>"

definition addRemoteServer ::
  "env \<Rightarrow> string \<Rightarrow> string \<Rightarrow> hub \<Rightarrow> McpServer list result \<times> hub" where
  "addRemoteServer ev serverName serverUrl h =
     (case readAndValidateMcpSettingsFile ev h of
        (None, h1) \<Rightarrow> add_failed (Error ''Failed to read MCP settings'') h1
      | (Some servers, h1) \<Rightarrow>
          if map_of servers serverName \<noteq> None then
            add_failed (Error (''An MCP server with the name '' @ quoted serverName @
                               '' already exists'')) h1
          else if \<not> url_valid ev serverUrl then
            add_failed (Error (''Invalid server URL: '' @ serverUrl @
                               ''. Please provide a valid URL.'')) h1
          else
            (case ServerConfigSchema ev (remote_config serverUrl) of
               None \<Rightarrow> add_failed (Error ''ZodError'') h1
             | Some parsedConfig \<Rightarrow>
                 (let servers' = AList.update serverName parsedConfig servers;
                      h2 = getMcpSettingsFilePath h1;
                      h3 = writeFile
                             (Json (Some (AList.update serverName (remote_config serverUrl) servers')))
                             h2;
                      h4 = updateServerConnectionsRPC ev servers' h3
                  in (Inr (getSortedMcpServers (map fst servers') h4), h4))))"

subsection \<open>Notifications\<close>

record notification_params =
  p_level :: "string option"
  p_logger :: "string option"
  p_data :: "string option"
  p_message :: "string option"

definition no_params :: notification_params where
  "no_params = \<lparr>p_level = None, p_logger = None, p_data = None, p_message = None\<rparr>"

text \<open>
  The values the handler computes from the parameters: \<^verbatim>\<open>params.level || "info"\<close>,
  \<^verbatim>\<open>params.data || params.message || ""\<close>, \<^verbatim>\<open>params.logger || ""\<close> and the
  formatted message.
\<close>

definition params_of :: "notification_params option \<Rightarrow> notification_params" where
  "params_of ps = (case ps of None \<Rightarrow> no_params | Some q \<Rightarrow> q)"

definition level_of :: "notification_params option \<Rightarrow> string" where
  "level_of ps = or_else (p_level (params_of ps)) ''info''"

definition data_of :: "notification_params option \<Rightarrow> string" where
  "data_of ps = or_else (p_data (params_of ps)) (or_else (p_message (params_of ps)) [])"

definition logger_of :: "notification_params option \<Rightarrow> string" where
  "logger_of ps = or_else (p_logger (params_of ps)) []"

definition message_of :: "notification_params option \<Rightarrow> string" where
  "message_of ps =
     (if logger_of ps \<noteq> [] then ''['' @ logger_of ps @ ''] '' @ data_of ps else data_of ps)"

text \<open>
  The handler that \<^verbatim>\<open>connectToServer\<close> registers for \<^verbatim>\<open>notifications/message\<close>, for
  the server \<open>nm\<close>, the parameters of the notification and the value of \<^verbatim>\<open>Date.now()\<close>.
\<close>

definition notification_handler ::
  "string \<Rightarrow> notification_params option \<Rightarrow> nat \<Rightarrow> hub \<Rightarrow> hub" where
  "notification_handler nm ps now h =
     (let level = level_of ps;
          data = data_of ps;
          logger = logger_of ps;
          message = message_of ps;
          h1 = (case notificationCallback h of
                  Some cb \<Rightarrow> emit (NotificationCallback cb nm level message) h
                | None \<Rightarrow>
                    h\<lparr>pendingNotifications := pendingNotifications h @
                        [\<lparr>n_serverName = nm, n_level = level, n_message = message,
                          n_timestamp = now\<rparr>]\<rparr>)
      in emit (PostMessageToWebview nm level data logger) h1)"

text \<open>
  A notification as the peer sends it. A key of its \<^verbatim>\<open>params\<close> is absent, a string
  or another JSON value; the \<^verbatim>\<open>params\<close> are absent, an object or another JSON value.
\<close>

datatype json_field = Absent | JString string | JOther

record raw_params =
  r_level :: json_field
  r_logger :: json_field
  r_data :: json_field
  r_message :: json_field

datatype raw_params_value = NoParams | ParamsObject raw_params | ParamsOther

record peer_notification =
  pn_method :: string
  pn_params :: raw_params_value

text \<open>
  \<^verbatim>\<open>NotificationMessageSchema\<close>, the schema the handler is registered with: the method
  is \<^verbatim>\<open>notifications/message\<close>, the \<^verbatim>\<open>params\<close> are optional, the level is optional
  and one of four names, the logger, the data and the message are optional strings.
  \<open>None\<close> when the schema rejects the notification.
\<close>

definition string_field :: "json_field \<Rightarrow> string option option" where
  "string_field f =
     (case f of Absent \<Rightarrow> Some None | JString s \<Rightarrow> Some (Some s) | JOther \<Rightarrow> None)"

definition level_field :: "json_field \<Rightarrow> string option option" where
  "level_field f =
     (case f of
        Absent \<Rightarrow> Some None
      | JString s \<Rightarrow>
          if s \<in> set [''debug'', ''info'', ''warning'', ''error''] then Some (Some s) else None
      | JOther \<Rightarrow> None)"

definition NotificationMessageSchema :: "peer_notification \<Rightarrow> notification_params option option" where
  "NotificationMessageSchema n =
     (if pn_method n \<noteq> ''notifications/message'' then None
      else
        (case pn_params n of
           NoParams \<Rightarrow> Some None
         | ParamsOther \<Rightarrow> None
         | ParamsObject r \<Rightarrow>
             (case level_field (r_level r) of
                None \<Rightarrow> None
              | Some level \<Rightarrow>
                  (case string_field (r_logger r) of
                     None \<Rightarrow> None
                   | Some logger \<Rightarrow>
                       (case string_field (r_data r) of
                          None \<Rightarrow> None
                        | Some data \<Rightarrow>
                            (case string_field (r_message r) of
                               None \<Rightarrow> None
                             | Some message \<Rightarrow>
                                 Some (Some \<lparr>p_level = level, p_logger = logger, p_data = data,
                                              p_message = message\<rparr>)))))))"

text \<open>
  The fallback handler that \<open>connectToServer\<close> sets for the other notifications: it shows
  a message (the serialised \<^verbatim>\<open>params\<close> at its end are left out).
\<close>

definition fallbackNotificationHandler :: "string \<Rightarrow> peer_notification \<Rightarrow> hub \<Rightarrow> hub" where
  "fallbackNotificationHandler nm n h =
     emit (ShowMessage (''MCP '' @ nm @ '': '' @
             (if pn_method n = [] then ''unknown'' else pn_method n))) h"

text \<open>
  A notification arriving from the peer of the server \<open>nm\<close>. The hub registers
  \<open>notification_handler\<close> with \<^verbatim>\<open>setNotificationHandler(NotificationMessageSchema, ...)\<close>:
  the protocol client parses a notification of that method with the schema and calls
  the handler with the result, and a notification the schema rejects reaches no handler
  of the hub. A notification of another method goes to the fallback handler.
\<close>

definition on_notification :: "string \<Rightarrow> peer_notification \<Rightarrow> nat \<Rightarrow> hub \<Rightarrow> hub" where
  "on_notification nm n now h =
     (if pn_method n = ''notifications/message'' then
        (case NotificationMessageSchema n of
           None \<Rightarrow> h
         | Some ps \<Rightarrow> notification_handler nm ps now h)
      else fallbackNotificationHandler nm n h)"

text \<open>The notifications of a list arriving one after the other.\<close>

fun receive :: "(string \<times> peer_notification \<times> nat) list \<Rightarrow> hub \<Rightarrow> hub" where
  "receive [] h = h"
| "receive ((nm, n, now) # rest) h = receive rest (on_notification nm n now h)"

text \<open>
  The record the handler stores for a notification, and the records of the arrivals of
  a list that the schema accepts, in their order.
\<close>

definition stored :: "string \<Rightarrow> notification_params option \<Rightarrow> nat \<Rightarrow> notification" where
  "stored nm ps now =
     \<lparr>n_serverName = nm, n_level = level_of ps, n_message = message_of ps, n_timestamp = now\<rparr>"

fun accepted :: "(string \<times> peer_notification \<times> nat) list \<Rightarrow> notification list" where
  "accepted [] = []"
| "accepted ((nm, n, now) # rest) =
     (case NotificationMessageSchema n of
        None \<Rightarrow> accepted rest
      | Some ps \<Rightarrow> stored nm ps now # accepted rest)"

definition getPendingNotifications :: "hub \<Rightarrow> notification list \<times> hub" where
  "getPendingNotifications h = (pendingNotifications h, h\<lparr>pendingNotifications := []\<rparr>)"

definition setNotificationCallback :: "nat \<Rightarrow> hub \<Rightarrow> hub" where
  "setNotificationCallback cb h = h\<lparr>notificationCallback := Some cb\<rparr>"

definition clearNotificationCallback :: "hub \<Rightarrow> hub" where
  "clearNotificationCallback h = h\<lparr>notificationCallback := None\<rparr>"

subsection \<open>Concrete servers, collaborators and hubs\<close>

definition no_config :: server_config where
  "no_config =
     \<lparr>cfg_type = None, cfg_command = None, cfg_args = None, cfg_cwd = None, cfg_env = None,
      cfg_url = None, cfg_headers = None, cfg_disabled = None, cfg_timeout = None,
      cfg_autoApprove = None\<rparr>"

definition stdio_config :: server_config where
  "stdio_config =
     no_config\<lparr>cfg_type := Some ''stdio'', cfg_command := Some ''node'',
               cfg_args := Some [''build/index.js'']\<rparr>"

definition sse_config :: server_config where
  "sse_config = no_config\<lparr>cfg_type := Some ''sse'', cfg_url := Some ''http://localhost/sse''\<rparr>"

definition a_tool :: McpTool where
  "a_tool = \<lparr>tool_name = ''search'', tool_autoApprove = None\<rparr>"

text \<open>Collaborators that always succeed; the schema accepts every document with entries.\<close>

definition env_ok :: env where
  "env_ok =
     \<lparr>transport_start = (\<lambda>nm. None), new_URL = (\<lambda>u. True), client_connect = (\<lambda>nm. None),
      transport_close = (\<lambda>nm. None), client_close = (\<lambda>nm. None),
      tools_list = (\<lambda>nm. Some [a_tool]),
      resources_list = (\<lambda>nm. Some [McpResource ''file:///a'']),
      templates_list = (\<lambda>nm. Some [McpResourceTemplate ''file:///{x}'']),
      resources_read = (\<lambda>nm uri. Inr ''text''), tools_call = (\<lambda>nm t. Inr None),
      McpSettingsSchema = (\<lambda>ms. ms), ServerConfigSchema = (\<lambda>c. Some c),
      url_valid = (\<lambda>u. take 4 u = ''http'')\<rparr>"

definition empty_hub :: hub where
  "empty_hub =
     \<lparr>connections = [], isConnecting = False, pendingNotifications = [],
      notificationCallback = None, fileWatchers = [], clientVersion = ''1.0'',
      settingsFile = Some (Json (Some [])), trace = []\<rparr>"

definition connection_of :: "string \<Rightarrow> server_config \<Rightarrow> McpConnection" where
  "connection_of nm cfg =
     \<lparr>server = \<lparr>name = nm, config = JSON_stringify cfg, status = connected, error = Some [],
                disabled = cfg_disabled cfg, tools = Some [], resources = Some [],
                resourceTemplates = Some []\<rparr>,
      client = Some (Client ''1.0''), transport = Some (StdioClientTransport (cfg_command cfg) (cfg_args cfg))\<rparr>"

definition hub_A :: hub where
  "hub_A = empty_hub\<lparr>connections := [connection_of ''A'' stdio_config]\<rparr>"

definition env_close_throws :: env where
  "env_close_throws = env_ok\<lparr>transport_close := (\<lambda>nm. Some ''EPIPE'')\<rparr>"

definition hub_AB :: hub where
  "hub_AB = empty_hub\<lparr>connections :=
     [connection_of ''A'' stdio_config,
      disabledConnection ''B'' (sse_config\<lparr>cfg_disabled := Some True\<rparr>)]\<rparr>"

definition some_message :: peer_notification where
  "some_message =
     \<lparr>pn_method = ''notifications/message'',
      pn_params = ParamsObject \<lparr>r_level = JString ''warning'', r_logger = JString ''db'',
                                r_data = JString ''slow'', r_message = Absent\<rparr>\<rparr>"

definition bare_message :: peer_notification where
  "bare_message = \<lparr>pn_method = ''notifications/message'', pn_params = NoParams\<rparr>"

text \<open>A log message of a level the schema of the handler does not list.\<close>

definition notice_message :: peer_notification where
  "notice_message =
     \<lparr>pn_method = ''notifications/message'',
      pn_params = ParamsObject \<lparr>r_level = JString ''notice'', r_logger = Absent,
                                r_data = JString ''restarted'', r_message = Absent\<rparr>\<rparr>"

text \<open>
  Two hubs with the same three connections in different registry order; the settings
  file lists only \<open>A\<close>.
\<close>

definition hub_AXY :: hub where
  "hub_AXY = empty_hub\<lparr>connections :=
     [connection_of ''A'' stdio_config, connection_of ''X'' stdio_config,
      connection_of ''Y'' sse_config],
     settingsFile := Some (Json (Some [(''A'', stdio_config)]))\<rparr>"

definition hub_YXA :: hub where
  "hub_YXA = empty_hub\<lparr>connections :=
     [connection_of ''Y'' sse_config, connection_of ''X'' stdio_config,
      connection_of ''A'' stdio_config],
     settingsFile := Some (Json (Some [(''A'', stdio_config)]))\<rparr>"

text \<open>
  Re-reading the auto-approve value of a server from the settings file, the way
  \<open>fetchToolsList\<close> reads it; \<open>None\<close> when the file cannot be read that far.
\<close>

definition read_autoApprove :: "hub \<Rightarrow> string \<Rightarrow> approve_value option" where
  "read_autoApprove h nm =
     (case ensured h of
        NotJson \<Rightarrow> None
      | Json None \<Rightarrow> None
      | Json (Some servers) \<Rightarrow> Some (autoApproveConfig servers nm))"

text \<open>
  The array of tool names read back for a server; \<open>None\<close> when no array can be read
  there (the file cannot be read that far, or the value is a string or another value).
\<close>

definition approved_names :: "hub \<Rightarrow> string \<Rightarrow> string list option" where
  "approved_names h nm =
     (case read_autoApprove h nm of
        Some (ApproveArray l) \<Rightarrow> Some l
      | _ \<Rightarrow> None)"

definition hub_dup :: hub where
  "hub_dup = empty_hub\<lparr>settingsFile :=
     Some (Json (Some [(''A'', stdio_config\<lparr>cfg_autoApprove := Some (ApproveArray [''search'', ''search''])\<rparr>)]))\<rparr>"

text \<open>A settings file in which the value of \<^verbatim>\<open>autoApprove\<close> is a string.\<close>

definition hub_string :: hub where
  "hub_string = empty_hub\<lparr>settingsFile :=
     Some (Json (Some [(''A'', stdio_config\<lparr>cfg_autoApprove := Some (ApproveString ''search,fetch'')\<rparr>)]))\<rparr>"

definition hub_approve :: hub where
  "hub_approve = empty_hub\<lparr>settingsFile :=
     Some (Json (Some [(''A'', stdio_config\<lparr>cfg_autoApprove := Some (ApproveArray [''search'', ''fetch''])\<rparr>)]))\<rparr>"

definition hub_nofile :: hub where
  "hub_nofile = empty_hub\<lparr>settingsFile := None\<rparr>"

text \<open>
  Collaborators whose \<^verbatim>\<open>resources/list\<close> request fails, and a hub whose settings file
  is not JSON.
\<close>

definition env_resources_fail :: env where
  "env_resources_fail = env_ok\<lparr>resources_list := (\<lambda>nm. None)\<rparr>"

definition hub_badfile :: hub where
  "hub_badfile = empty_hub\<lparr>settingsFile := Some NotJson\<rparr>"

text \<open>A settings file in which the value of \<^verbatim>\<open>autoApprove\<close> is \<^verbatim>\<open>true\<close>.\<close>

definition hub_other :: hub where
  "hub_other = empty_hub\<lparr>settingsFile :=
     Some (Json (Some [(''A'', stdio_config\<lparr>cfg_autoApprove := Some ApproveOther\<rparr>)]))\<rparr>"


text \<open>Collaborators for which the process of server \<open>A\<close> cannot be started.\<close>

definition env_start_fails :: env where
  "env_start_fails =
     env_ok\<lparr>transport_start := (\<lambda>nm. if nm = ''A'' then Some ''spawn node ENOENT'' else None)\<rparr>"

text \<open>A hub whose settings file lists the stdio server \<open>A\<close>.\<close>

definition hub_file_A :: hub where
  "hub_file_A = empty_hub\<lparr>settingsFile := Some (Json (Some [(''A'', stdio_config)]))\<rparr>"

subsection \<open>Reading the trace\<close>

text \<open>The server a transport or client effect belongs to.\<close>

fun server_of :: "event \<Rightarrow> string option" where
  "server_of (TransportStart nm) = Some nm"
| "server_of (TransportClose nm) = Some nm"
| "server_of (ClientConnect nm) = Some nm"
| "server_of (ClientClose nm) = Some nm"
| "server_of (ClientRequest nm m) = Some nm"
| "server_of e = None"



text \<open>The trace of \<open>h'\<close> is the trace of \<open>h\<close> followed by effects that all satisfy \<open>P\<close>.\<close>

definition extends_with :: "(event \<Rightarrow> bool) \<Rightarrow> hub \<Rightarrow> hub \<Rightarrow> bool" where
  "extends_with P h h' =
     (take (length (trace h)) (trace h') = trace h \<and>
      list_all P (drop (length (trace h)) (trace h')))"

text \<open>The transport and client effects of one server, in the order they happened.\<close>

definition server_log :: "string \<Rightarrow> hub \<Rightarrow> event list" where
  "server_log nm h = filter (\<lambda>e. server_of e = Some nm) (trace h)"

text \<open>
  Two hubs agree on a name when they have the same entries and the same log for it, the
  same client version, and the same settings as read.
\<close>

definition agree_on :: "string \<Rightarrow> hub \<Rightarrow> hub \<Rightarrow> bool" where
  "agree_on nm h h' =
     (filter (named nm) (connections h') = filter (named nm) (connections h) \<and>
      server_log nm h' = server_log nm h \<and>
      clientVersion h' = clientVersion h \<and>
      ensured h' = ensured h)"

section \<open>Properties\<close>

lemmas example_defs = hub_A_def env_close_throws_def env_ok_def empty_hub_def connection_of_def
  disabledConnection_def stdio_config_def sse_config_def no_config_def named_def a_tool_def

subsection \<open>What the primitive steps leave alone\<close>

lemma emit_fields [simp]:
  "connections (emit e h) = connections h"
  "trace (emit e h) = trace h @ [e]"
  "settingsFile (emit e h) = settingsFile h"
  "pendingNotifications (emit e h) = pendingNotifications h"
  "notificationCallback (emit e h) = notificationCallback h"
  "fileWatchers (emit e h) = fileWatchers h"
  "clientVersion (emit e h) = clientVersion h"
  "isConnecting (emit e h) = isConnecting h"
  by (simp_all add: emit_def)

lemma getMcpSettingsFilePath_connections [simp]:
  "connections (getMcpSettingsFilePath h) = connections h"
  by (simp add: getMcpSettingsFilePath_def split: option.splits)

lemma notifyWebviewOfServerChanges_connections [simp]:
  "connections (snd (notifyWebviewOfServerChanges h)) = connections h"
  by (simp add: notifyWebviewOfServerChanges_def Let_def split: file_content.splits)

lemma set_set_order [simp]: "set (set_order xs) = set xs"
  by (induction xs) auto

subsection \<open>Deleting connections\<close>

lemma close_both_connections [simp]: "connections (snd (close_both ev nm c h)) = connections h"
  by (simp add: close_both_def split: option.splits sum.splits prod.splits)

lemma filter_not_named:
  "find (named nm) xs = None \<Longrightarrow> filter (\<lambda>conn. name (server conn) \<noteq> nm) xs = xs"
  by (induction xs) (auto simp: named_def split: if_splits)

lemma deleteConnection_connections:
  "connections (deleteConnection ev nm h) =
     filter (\<lambda>conn. name (server conn) \<noteq> nm) (connections h)"
proof (cases "find (named nm) (connections h)")
  case None
  then show ?thesis by (simp add: deleteConnection_def filter_not_named)
next
  case (Some c)
  obtain r h1 where cb: "close_both ev nm c h = (r, h1)" by (cases "close_both ev nm c h")
  have "connections h1 = connections h"
    using close_both_connections[of ev nm c h] cb by simp
  then show ?thesis
    using Some cb by (cases r) (simp_all add: deleteConnection_def)
qed

lemma delete_removed_connections:
  "connections (delete_removed ev newNames names h) =
     filter (\<lambda>conn. name (server conn) \<in> set newNames \<or> name (server conn) \<notin> set names)
       (connections h)"
proof (induction names arbitrary: h)
  case Nil
  then show ?case by simp
next
  case (Cons nm rest)
  show ?case
    by (auto simp: Cons.IH deleteConnection_connections intro!: filter_cong)
qed

lemma reconcile_empty: "connections (reconcile ev src [] h) = []"
  by (simp add: reconcile_def removeAllFileWatchers_def delete_removed_connections)

lemma updateServerConnections_connections:
  "connections (snd (updateServerConnections ev newServers h)) =
   connections (reconcile ev internal newServers h)"
proof -
  obtain r h1 where n: "notifyWebviewOfServerChanges (reconcile ev internal newServers h) = (r, h1)"
    by (cases "notifyWebviewOfServerChanges (reconcile ev internal newServers h)")
  have "connections h1 = connections (reconcile ev internal newServers h)"
    using notifyWebviewOfServerChanges_connections[of "reconcile ev internal newServers h"] n
    by simp
  then show ?thesis
    using n by (cases r) (simp_all add: updateServerConnections_def)
qed

lemma close_both_throws:
  "(transport c \<noteq> None \<and> transport_close ev nm \<noteq> None) \<or>
   (client c \<noteq> None \<and> client_close ev nm \<noteq> None) \<Longrightarrow>
   \<exists>e. fst (close_both ev nm c h) = Inl e"
  by (auto simp: close_both_def split: option.splits)

lemma deleteConnection_logs:
  assumes "find (named nm) (connections h) = Some c"
    and "fst (close_both ev nm c h) = Inl e"
  shows "last (trace (deleteConnection ev nm h)) =
           ConsoleError (''Failed to close transport for '' @ nm @ '':'')"
proof -
  obtain h1 where "close_both ev nm c h = (Inl e, h1)"
    using assms(2) by (cases "close_both ev nm c h") simp
  then show ?thesis using assms(1) by (simp add: deleteConnection_def)
qed

text \<open>
  C3. Reconciling the empty mapping empties the registry, whatever the collaborators
  answer. A single \<open>deleteConnection\<close> leaves no entry of the name behind; when a
  \<^verbatim>\<open>close()\<close> of the entry throws (the transport's, or the client's), the function still
  returns a hub, its last effect is the \<^verbatim>\<open>console.error\<close> of the catch block, and the
  entry is gone.
\<close>

theorem empty_reconcile_removes_all:
  "connections (snd (updateServerConnections ev [] h)) = []
   \<and> (\<forall>conn \<in> set (connections (deleteConnection ev nm h)). name (server conn) \<noteq> nm)
   \<and> (\<forall>c. find (named nm) (connections h) = Some c \<and>
          ((transport c \<noteq> None \<and> transport_close ev nm \<noteq> None) \<or>
           (client c \<noteq> None \<and> client_close ev nm \<noteq> None)) \<longrightarrow>
        last (trace (deleteConnection ev nm h)) =
          ConsoleError (''Failed to close transport for '' @ nm @ '':'') \<and>
        find (named nm) (connections (deleteConnection ev nm h)) = None)"
proof (intro conjI allI impI ballI)
  show "connections (snd (updateServerConnections ev [] h)) = []"
    by (simp add: updateServerConnections_connections reconcile_empty)
next
  fix conn assume "conn \<in> set (connections (deleteConnection ev nm h))"
  then show "name (server conn) \<noteq> nm" by (simp add: deleteConnection_connections)
next
  fix c
  assume a: "find (named nm) (connections h) = Some c \<and>
          ((transport c \<noteq> None \<and> transport_close ev nm \<noteq> None) \<or>
           (client c \<noteq> None \<and> client_close ev nm \<noteq> None))"
  then obtain e where "fst (close_both ev nm c h) = Inl e"
    using close_both_throws[of c ev nm h] by blast
  with a show "last (trace (deleteConnection ev nm h)) =
          ConsoleError (''Failed to close transport for '' @ nm @ '':'')"
    using deleteConnection_logs by blast
next
  fix c
  show "find (named nm) (connections (deleteConnection ev nm h)) = None"
    by (simp add: deleteConnection_connections find_None_iff named_def)
qed

theorem empty_reconcile_removes_all_witness:
  "find (named ''A'') (connections hub_A) = Some (connection_of ''A'' stdio_config)
   \<and> transport (connection_of ''A'' stdio_config) \<noteq> None
   \<and> transport_close env_close_throws ''A'' \<noteq> None
   \<and> connections (snd (updateServerConnections env_close_throws [] hub_A)) = []
   \<and> last (trace (deleteConnection env_close_throws ''A'' hub_A)) =
          ConsoleError (''Failed to close transport for '' @ ''A'' @ '':'')
   \<and> find (named ''A'') (connections (deleteConnection env_close_throws ''A'' hub_A)) = None"
  using empty_reconcile_removes_all[of env_close_throws hub_A "''A''"]
  by (simp add: example_defs)

subsection \<open>Invocation\<close>

lemma find_named_None:
  "(\<forall>conn \<in> set (connections h). name (server conn) \<noteq> serverName) \<Longrightarrow>
   find (named serverName) (connections h) = None"
  by (simp add: find_None_iff named_def)

lemma readResource_not_found:
  "find (named serverName) (connections h) = None \<Longrightarrow>
   readResource ev serverName uri h =
     (Inl (Error (''No connection found for server: '' @ serverName)), h)"
  by (simp add: readResource_def)

lemma callTool_not_found:
  "find (named serverName) (connections h) = None \<Longrightarrow>
   callTool ev serverName toolName h =
     (Inl (Error (''No connection found for server: '' @ serverName @
        ''. Please make sure to use MCP servers available under 'Connected MCP Servers'.'')), h)"
  by (simp add: callTool_def)

lemma readResource_disabled:
  "find (named serverName) (connections h) = Some connection \<Longrightarrow>
   disabled (server connection) = Some True \<Longrightarrow>
   readResource ev serverName uri h =
     (Inl (Error (''Server '' @ quoted serverName @ '' is disabled'')), h)"
  by (simp add: readResource_def truthy_def)

lemma callTool_disabled:
  "find (named serverName) (connections h) = Some connection \<Longrightarrow>
   disabled (server connection) = Some True \<Longrightarrow>
   callTool ev serverName toolName h =
     (Inl (Error (''Server '' @ quoted serverName @ '' is disabled and cannot be used'')), h)"
  by (simp add: callTool_def truthy_def)

text \<open>
  C5. For a name that no registry entry carries, \<open>readResource\<close> and \<open>callTool\<close> throw
  their not-found error; for a name whose registry entry (the one the lookup finds) has
  \<open>disabled = true\<close>, they throw their server-disabled error. In all four cases the hub
  is returned as it was, so its trace holds no new \<open>ClientRequest\<close>, nor any other
  effect.
\<close>

theorem invocation_guards:
  "((\<forall>conn \<in> set (connections h). name (server conn) \<noteq> serverName) \<longrightarrow>
      readResource ev serverName uri h =
        (Inl (Error (''No connection found for server: '' @ serverName)), h) \<and>
      callTool ev serverName toolName h =
        (Inl (Error (''No connection found for server: '' @ serverName @
           ''. Please make sure to use MCP servers available under 'Connected MCP Servers'.'')), h))
   \<and> (\<forall>connection. findConnection serverName src h = Some connection \<and>
         disabled (server connection) = Some True \<longrightarrow>
      readResource ev serverName uri h =
        (Inl (Error (''Server '' @ quoted serverName @ '' is disabled'')), h) \<and>
      callTool ev serverName toolName h =
        (Inl (Error (''Server '' @ quoted serverName @ '' is disabled and cannot be used'')), h))"
  using find_named_None readResource_not_found callTool_not_found
    readResource_disabled callTool_disabled
  unfolding findConnection_def by blast

theorem invocation_guards_witness:
  "''missing-server'' \<notin> set (map (\<lambda>conn. name (server conn)) (connections hub_AB))
   \<and> callTool env_ok ''missing-server'' ''x'' hub_AB =
        (Inl (Error (''No connection found for server: '' @ ''missing-server'' @
           ''. Please make sure to use MCP servers available under 'Connected MCP Servers'.'')), hub_AB)
   \<and> readResource env_ok ''missing-server'' ''file:///a'' hub_AB =
        (Inl (Error (''No connection found for server: '' @ ''missing-server'')), hub_AB)
   \<and> findConnection ''B'' rpc hub_AB =
        Some (disabledConnection ''B'' (sse_config\<lparr>cfg_disabled := Some True\<rparr>))
   \<and> disabled (server (disabledConnection ''B'' (sse_config\<lparr>cfg_disabled := Some True\<rparr>))) =
        Some True
   \<and> readResource env_ok ''B'' ''file:///a'' hub_AB =
        (Inl (Error (''Server '' @ quoted ''B'' @ '' is disabled'')), hub_AB)
   \<and> callTool env_ok ''B'' ''x'' hub_AB =
        (Inl (Error (''Server '' @ quoted ''B'' @ '' is disabled and cannot be used'')), hub_AB)"
  using invocation_guards[of hub_AB "''missing-server''" env_ok "''file:///a''" "''x''" rpc]
    invocation_guards[of hub_AB "''B''" env_ok "''file:///a''" "''x''" rpc]
  by (simp add: hub_AB_def findConnection_def example_defs)

subsection \<open>Notifications\<close>

lemma handler_callback:
  "notificationCallback h = Some cb \<Longrightarrow>
   notification_handler nm ps now h =
     emit (PostMessageToWebview nm (level_of ps) (data_of ps) (logger_of ps))
       (emit (NotificationCallback cb nm (level_of ps) (message_of ps)) h)"
  by (simp add: notification_handler_def Let_def)

lemma handler_pending:
  "notificationCallback h = None \<Longrightarrow>
   notification_handler nm ps now h =
     emit (PostMessageToWebview nm (level_of ps) (data_of ps) (logger_of ps))
       (h\<lparr>pendingNotifications := pendingNotifications h @ [stored nm ps now]\<rparr>)"
  by (simp add: notification_handler_def stored_def Let_def)

lemma schema_method:
  "NotificationMessageSchema n = Some ps \<Longrightarrow> pn_method n = ''notifications/message''"
  by (simp add: NotificationMessageSchema_def split: if_splits)

lemma on_notification_accepted:
  "NotificationMessageSchema n = Some ps \<Longrightarrow>
   on_notification nm n now h = notification_handler nm ps now h"
  by (simp add: on_notification_def schema_method)

lemma on_notification_rejected:
  "pn_method n = ''notifications/message'' \<Longrightarrow> NotificationMessageSchema n = None \<Longrightarrow>
   on_notification nm n now h = h"
  by (simp add: on_notification_def)

lemma on_notification_pending:
  "pendingNotifications (on_notification nm n now h) =
     pendingNotifications h @ accepted [(nm, n, now)] \<and>
   notificationCallback (on_notification nm n now h) = None"
  if "notificationCallback h = None"
proof (cases "NotificationMessageSchema n")
  case None
  then show ?thesis
    using that by (simp add: on_notification_def fallbackNotificationHandler_def)
next
  case (Some ps)
  then show ?thesis
    using that by (simp add: on_notification_accepted handler_pending)
qed

lemma receive_pending:
  "notificationCallback h = None \<Longrightarrow>
   pendingNotifications (receive arrivals h) = pendingNotifications h @ accepted arrivals \<and>
   notificationCallback (receive arrivals h) = None"
proof (induction arrivals arbitrary: h)
  case Nil
  then show ?case by simp
next
  case (Cons a rest)
  obtain nm n now where a: "a = (nm, n, now)" by (cases a)
  note step = on_notification_pending[OF Cons.prems, of nm n now]
  from Cons.IH[of "on_notification nm n now h"] step show ?case
    by (simp add: a split: option.splits)
qed

text \<open>
  C4, as the code has it. The statement is about the notifications that reach the
  handler of the hub: those of method \<^verbatim>\<open>notifications/message\<close> that the schema of the
  handler accepts. With a callback registered, the handler calls it once, with the
  server name, the level and the formatted message, and leaves the pending queue as it
  was. With none registered, the notification is appended at the end of the pending
  queue, and after any sequence of arrivals \<open>getPendingNotifications\<close> returns the old
  queue followed by the accepted arrivals in their order. A notification of that method
  that the schema rejects changes nothing: it reaches neither the callback nor the
  queue. \<open>getPendingNotifications\<close> returns the queue and the hub with the queue emptied
  in one step, so the next call returns the empty list.
\<close>

theorem notification_routing:
  "(\<forall>ps cb. NotificationMessageSchema n = Some ps \<and> notificationCallback h = Some cb \<longrightarrow>
      trace (on_notification nm n now h) =
        trace h @ [NotificationCallback cb nm (level_of ps) (message_of ps),
                   PostMessageToWebview nm (level_of ps) (data_of ps) (logger_of ps)] \<and>
      pendingNotifications (on_notification nm n now h) = pendingNotifications h)
   \<and> (\<forall>ps. NotificationMessageSchema n = Some ps \<and> notificationCallback h = None \<longrightarrow>
      pendingNotifications (on_notification nm n now h) =
        pendingNotifications h @
          [\<lparr>n_serverName = nm, n_level = level_of ps, n_message = message_of ps,
            n_timestamp = now\<rparr>] \<and>
      trace (on_notification nm n now h) =
        trace h @ [PostMessageToWebview nm (level_of ps) (data_of ps) (logger_of ps)])
   \<and> (pn_method n = ''notifications/message'' \<and> NotificationMessageSchema n = None \<longrightarrow>
      on_notification nm n now h = h)
   \<and> (notificationCallback h = None \<longrightarrow>
      fst (getPendingNotifications (receive arrivals h)) =
        pendingNotifications h @ accepted arrivals)
   \<and> getPendingNotifications h = (pendingNotifications h, h\<lparr>pendingNotifications := []\<rparr>)
   \<and> fst (getPendingNotifications (snd (getPendingNotifications h))) = []"
  by (simp add: on_notification_accepted on_notification_rejected handler_callback
      handler_pending receive_pending getPendingNotifications_def stored_def)

lemmas notification_eval = NotificationMessageSchema_def level_field_def string_field_def
  on_notification_def notification_handler_def stored_def level_of_def message_of_def
  data_of_def logger_of_def params_of_def or_else_def no_params_def
  setNotificationCallback_def empty_hub_def some_message_def bare_message_def
  notice_message_def getPendingNotifications_def emit_def Let_def

theorem notification_routing_witness:
  "NotificationMessageSchema some_message =
     Some (Some \<lparr>p_level = Some ''warning'', p_logger = Some ''db'', p_data = Some ''slow'',
                  p_message = None\<rparr>)
   \<and> notificationCallback (setNotificationCallback 7 empty_hub) = Some 7
   \<and> trace (on_notification ''A'' some_message 5 (setNotificationCallback 7 empty_hub)) =
        [NotificationCallback 7 ''A'' ''warning'' ''[db] slow'',
         PostMessageToWebview ''A'' ''warning'' ''slow'' ''db'']
   \<and> pendingNotifications
        (on_notification ''A'' some_message 5 (setNotificationCallback 7 empty_hub)) = []
   \<and> notificationCallback empty_hub = None
   \<and> pn_method notice_message = ''notifications/message''
   \<and> NotificationMessageSchema notice_message = None
   \<and> on_notification ''A'' notice_message 5 empty_hub = empty_hub
   \<and> fst (getPendingNotifications
            (receive [(''A'', some_message, 5), (''A'', notice_message, 6), (''B'', bare_message, 7)]
               empty_hub)) =
        [\<lparr>n_serverName = ''A'', n_level = ''warning'', n_message = ''[db] slow'', n_timestamp = 5\<rparr>,
         \<lparr>n_serverName = ''B'', n_level = ''info'', n_message = [], n_timestamp = 7\<rparr>]"
  using notification_routing[of some_message "setNotificationCallback 7 empty_hub" "''A''" 5]
    notification_routing[of notice_message empty_hub "''A''" 5
      "[(''A'', some_message, 5), (''A'', notice_message, 6), (''B'', bare_message, 7)]"]
  by (simp add: notification_eval)

text \<open>
  The claim C4 speaks of every incoming peer notification and of a bounded queue. A log
  message of level \<^verbatim>\<open>notice\<close> is not accepted by the schema the handler is registered
  with: with a callback registered the callback is not called, and with none registered
  nothing is queued. And with no callback registered, no number bounds the length of the
  queue over all sequences of arrivals.
\<close>

theorem notification_not_routed_or_bounded:
  "pn_method notice_message = ''notifications/message''
   \<and> trace (on_notification ''A'' notice_message 5 (setNotificationCallback 7 empty_hub)) = []
   \<and> pendingNotifications (on_notification ''A'' notice_message 5 empty_hub) = []
   \<and> \<not> (\<exists>bound. \<forall>arrivals.
          length (pendingNotifications (receive arrivals empty_hub)) \<le> bound)"
proof -
  have unbounded: "\<not> (\<exists>bound. \<forall>arrivals.
          length (pendingNotifications (receive arrivals empty_hub)) \<le> bound)"
  proof
    assume "\<exists>bound. \<forall>arrivals.
          length (pendingNotifications (receive arrivals empty_hub)) \<le> bound"
    then obtain bound where
      b: "\<And>arrivals. length (pendingNotifications (receive arrivals empty_hub)) \<le> bound"
      by blast
    have a: "accepted (replicate k (''A'', bare_message, 0)) =
             replicate k (stored ''A'' None 0)" for k
      by (induction k) (simp_all add: NotificationMessageSchema_def bare_message_def)
    have "notificationCallback empty_hub = None" by (simp add: empty_hub_def)
    from receive_pending[OF this, of "replicate (Suc bound) (''A'', bare_message, 0)"]
    have p: "pendingNotifications
               (receive (replicate (Suc bound) (''A'', bare_message, 0)) empty_hub) =
             pendingNotifications empty_hub @
               accepted (replicate (Suc bound) (''A'', bare_message, 0))"
      by (rule conjunct1)
    have "length (pendingNotifications
                    (receive (replicate (Suc bound) (''A'', bare_message, 0)) empty_hub)) =
          Suc bound"
      unfolding p a by (simp add: empty_hub_def)
    with b[of "replicate (Suc bound) (''A'', bare_message, 0)"] show False by simp
  qed
  show ?thesis
    using unbounded by (simp add: notification_eval)
qed

subsection \<open>The sorted listing\<close>

lemma getSorted_mset:
  "mset (getSortedMcpServers serverOrder h) = mset (map server (connections h))"
  by (simp add: getSortedMcpServers_def)

lemma getSorted_sorted:
  "sorted (map (\<lambda>s. indexOf serverOrder (name s)) (getSortedMcpServers serverOrder h))"
proof -
  have "map (\<lambda>s. indexOf serverOrder (name s)) (getSortedMcpServers serverOrder h) =
        map (\<lambda>conn. indexOf serverOrder (name (server conn)))
          (sort_key (\<lambda>conn. indexOf serverOrder (name (server conn))) (connections h))"
    by (simp add: getSortedMcpServers_def comp_def)
  then show ?thesis by simp
qed

lemma getSorted_stable:
  "filter (\<lambda>s. indexOf serverOrder (name s) = k) (getSortedMcpServers serverOrder h) =
   filter (\<lambda>s. indexOf serverOrder (name s) = k) (map server (connections h))"
  using sort_key_stable[of "\<lambda>conn. indexOf serverOrder (name (server conn))" k "connections h"]
  by (simp add: getSortedMcpServers_def filter_map comp_def)

lemma getSorted_order_free:
  assumes d: "distinct (map (\<lambda>conn. indexOf serverOrder (name (server conn))) (connections h))"
    and m: "mset (connections h') = mset (connections h)"
  shows "getSortedMcpServers serverOrder h' = getSortedMcpServers serverOrder h"
proof -
  let ?f = "\<lambda>conn. indexOf serverOrder (name (server conn))"
  have inj: "inj_on ?f (set (connections h))"
    using d by (simp add: distinct_map)
  have "sort_key ?f (connections h) = sort_key ?f (connections h')"
    by (rule sort_key_inj_key_eq) (use m inj in simp_all)
  then show ?thesis by (simp add: getSortedMcpServers_def)
qed

lemma notifyWebviewOfServerChanges_publishes:
  "settingsFile h = Some (Json ms) \<Longrightarrow>
   notifyWebviewOfServerChanges h =
     (Inr (), emit (SendMcpServersUpdate (getSortedMcpServers (keys_of ms) h)) h)"
  by (simp add: notifyWebviewOfServerChanges_def getMcpSettingsFilePath_def readFile_def)

text \<open>
  C8, as the code has it. The listing holds exactly the servers of the registry, in
  ascending order of \<open>indexOf serverOrder\<close> of their names, where a name that is not a
  key of the file has position \<open>-1\<close> and so comes before every key of the file; servers
  of equal position keep their registry order. When the positions of the registry's
  names are pairwise different (the names are distinct and at most one of them is not a
  key of the file), the listing is the same for every order of the registry.
  \<open>notifyWebviewOfServerChanges\<close> publishes this listing for the keys of the file.
\<close>

theorem sorted_listing:
  "mset (getSortedMcpServers serverOrder h) = mset (map server (connections h))
   \<and> sorted (map (\<lambda>s. indexOf serverOrder (name s)) (getSortedMcpServers serverOrder h))
   \<and> filter (\<lambda>s. indexOf serverOrder (name s) = k) (getSortedMcpServers serverOrder h) =
       filter (\<lambda>s. indexOf serverOrder (name s) = k) (map server (connections h))
   \<and> (distinct (map (\<lambda>conn. indexOf serverOrder (name (server conn))) (connections h)) \<and>
       mset (connections h') = mset (connections h) \<longrightarrow>
       getSortedMcpServers serverOrder h' = getSortedMcpServers serverOrder h)
   \<and> (settingsFile h = Some (Json ms) \<longrightarrow>
       notifyWebviewOfServerChanges h =
         (Inr (), emit (SendMcpServersUpdate (getSortedMcpServers (keys_of ms) h)) h))"
  using getSorted_mset getSorted_sorted getSorted_stable getSorted_order_free
    notifyWebviewOfServerChanges_publishes by blast

theorem sorted_listing_witness:
  "distinct (map (\<lambda>conn. indexOf [''Y'', ''A'', ''X''] (name (server conn))) (connections hub_AXY))
   \<and> mset (connections hub_YXA) = mset (connections hub_AXY)
   \<and> getSortedMcpServers [''Y'', ''A'', ''X''] hub_YXA =
       getSortedMcpServers [''Y'', ''A'', ''X''] hub_AXY
   \<and> map name (getSortedMcpServers [''Y'', ''A'', ''X''] hub_AXY) = [''Y'', ''A'', ''X'']
   \<and> settingsFile hub_AXY = Some (Json (Some [(''A'', stdio_config)]))
   \<and> fst (notifyWebviewOfServerChanges hub_AXY) = Inr ()"
  using sorted_listing[of "[''Y'', ''A'', ''X'']" hub_AXY 0 hub_YXA "Some [(''A'', stdio_config)]"]
  by (simp add: hub_AXY_def hub_YXA_def getSortedMcpServers_def example_defs)

text \<open>
  The claim C8 lets the listing be independent of the registry's order for every
  registry. Here \<open>X\<close> and \<open>Y\<close> are connections whose names are not keys of the file (it
  lists \<open>A\<close> only): they come first, in the order the registry has them.
\<close>

theorem sorted_listing_depends_on_insertion:
  "mset (connections hub_YXA) = mset (connections hub_AXY)
   \<and> settingsFile hub_YXA = settingsFile hub_AXY
   \<and> keys_of (Some [(''A'', stdio_config)]) = [''A'']
   \<and> map name (getSortedMcpServers [''A''] hub_AXY) = [''X'', ''Y'', ''A'']
   \<and> map name (getSortedMcpServers [''A''] hub_YXA) = [''Y'', ''X'', ''A'']
   \<and> getSortedMcpServers [''A''] hub_AXY \<noteq> getSortedMcpServers [''A''] hub_YXA"
  by (simp add: hub_AXY_def hub_YXA_def getSortedMcpServers_def keys_of_def example_defs)

subsection \<open>Auto-approve\<close>

lemma indexOf_ge: "-1 \<le> indexOf xs x"
  by (induction xs) (auto simp: Let_def)

lemma indexOf_absent: "indexOf xs x = -1 \<longleftrightarrow> x \<notin> set xs"
proof (induction xs)
  case Nil
  then show ?case by simp
next
  case (Cons y ys)
  have "-1 \<le> indexOf ys x" by (rule indexOf_ge)
  then show ?case using Cons by (auto simp: Let_def)
qed

lemma splice1_indexOf: "x \<in> set xs \<Longrightarrow> splice1 (indexOf xs x) xs = remove1 x xs"
proof (induction xs)
  case Nil
  then show ?case by simp
next
  case (Cons y ys)
  show ?case
  proof (cases "y = x")
    case True
    then show ?thesis by (simp add: splice1_def)
  next
    case False
    then have in_ys: "x \<in> set ys" using Cons.prems by simp
    then have ne: "indexOf ys x \<noteq> -1" by (simp add: indexOf_absent)
    have ge: "0 \<le> indexOf ys x" using indexOf_ge[of ys x] ne by linarith
    have "nat (indexOf ys x + 1) = Suc (nat (indexOf ys x))" using ge by simp
    then show ?thesis
      using False ne Cons.IH[OF in_ys] by (simp add: splice1_def Let_def)
  qed
qed

text \<open>The loop on an array: with the flag it appends the names that are missing, without
  it each name removes its first occurrence.\<close>

lemma toggle_tools_add:
  "toggle_tools True ts (ApproveArray l) =
     Some (ApproveArray (foldl (\<lambda>a t. if t \<in> set a then a else a @ [t]) l ts))"
  by (induction ts arbitrary: l)
     (simp_all add: value_indexOf_def value_push_def indexOf_absent)

lemma toggle_tools_remove:
  "toggle_tools False ts (ApproveArray l) =
     Some (ApproveArray (foldl (\<lambda>a t. remove1 t a) l ts))"
proof (induction ts arbitrary: l)
  case Nil
  then show ?case by simp
next
  case (Cons t ts)
  show ?case
  proof (cases "t \<in> set l")
    case True
    then show ?thesis
      using Cons[of "remove1 t l"]
      by (simp add: value_indexOf_def value_splice_def indexOf_absent splice1_indexOf)
  next
    case False
    then have "remove1 t l = l" by (simp add: remove1_idem)
    then show ?thesis
      using False Cons[of l] by (simp add: value_indexOf_def indexOf_absent)
  qed
qed

lemma added_set: "set (foldl (\<lambda>a t. if t \<in> set a then a else a @ [t]) l ts) = set l \<union> set ts"
  by (induction ts arbitrary: l) auto

lemma added_distinct:
  "distinct l \<Longrightarrow> distinct (foldl (\<lambda>a t. if t \<in> set a then a else a @ [t]) l ts)"
  by (induction ts arbitrary: l) auto

lemma added_same:
  "set ts \<subseteq> set l \<Longrightarrow> foldl (\<lambda>a t. if t \<in> set a then a else a @ [t]) l ts = l"
  by (induction ts arbitrary: l) auto

lemma removed_mset: "mset (foldl (\<lambda>a t. remove1 t a) l ts) = mset l - mset ts"
proof (induction ts arbitrary: l)
  case Nil
  then show ?case by simp
next
  case (Cons t ts)
  have "mset (foldl (\<lambda>a t. remove1 t a) (remove1 t l) ts) = mset (remove1 t l) - mset ts"
    by (rule Cons)
  also have "\<dots> = mset l - {#t#} - mset ts" by simp
  also have "\<dots> = mset l - mset (t # ts)" by (simp add: diff_diff_add)
  finally show ?case by simp
qed

lemma removed_distinct: "distinct l \<Longrightarrow> distinct (foldl (\<lambda>a t. remove1 t a) l ts)"
  by (induction ts arbitrary: l) auto

lemma removed_set:
  "distinct l \<Longrightarrow> set (foldl (\<lambda>a t. remove1 t a) l ts) = set l - set ts"
  by (induction ts arbitrary: l) auto

lemma removed_same: "set ts \<inter> set l = {} \<Longrightarrow> foldl (\<lambda>a t. remove1 t a) l ts = l"
  by (induction ts arbitrary: l) (auto simp: remove1_idem)

text \<open>The loop on an array, for both values of the flag.\<close>

lemma toggle_tools_array:
  "\<exists>l'. toggle_tools b ts (ApproveArray l) = Some (ApproveArray l')
      \<and> (b \<longrightarrow> set l' = set l \<union> set ts)
      \<and> (\<not> b \<longrightarrow> mset l' = mset l - mset ts)
      \<and> (\<not> b \<and> distinct l \<longrightarrow> set l' = set l - set ts)
      \<and> (distinct l \<longrightarrow> distinct l')
      \<and> (b \<or> distinct l \<longrightarrow> toggle_tools b ts (ApproveArray l') = Some (ApproveArray l'))"
proof (cases b)
  case True
  have "foldl (\<lambda>a t. if t \<in> set a then a else a @ [t])
          (foldl (\<lambda>a t. if t \<in> set a then a else a @ [t]) l ts) ts =
        foldl (\<lambda>a t. if t \<in> set a then a else a @ [t]) l ts"
    by (rule added_same) (simp add: added_set)
  then show ?thesis
    using True by (simp add: toggle_tools_add added_set added_distinct)
next
  case False
  have "foldl (\<lambda>a t. remove1 t a) (foldl (\<lambda>a t. remove1 t a) l ts) ts =
        foldl (\<lambda>a t. remove1 t a) l ts" if "distinct l"
    by (rule removed_same) (use that in \<open>auto simp: removed_set\<close>)
  then show ?thesis
    using False by (simp add: toggle_tools_remove removed_mset removed_set removed_distinct)
qed

text \<open>On a string or another value the loop changes nothing, when it does not throw.\<close>

lemma toggle_tools_string:
  "toggle_tools b ts (ApproveString s) = Some v \<Longrightarrow> v = ApproveString s"
  by (induction ts)
     (auto simp: value_indexOf_def value_push_def value_splice_def split: if_splits)

lemma toggle_tools_other:
  "toggle_tools b ts ApproveOther = Some v \<Longrightarrow> v = ApproveOther"
  by (cases ts) (auto simp: value_indexOf_def)

lemma toggle_tools_again:
  assumes "toggle_tools b ts v = Some v'"
    and "b \<or> (\<forall>l. v = ApproveArray l \<longrightarrow> distinct l)"
  shows "toggle_tools b ts v' = Some v'"
proof (cases v)
  case (ApproveArray l)
  then show ?thesis using toggle_tools_array[of b ts l] assms by auto
next
  case (ApproveString s)
  then show ?thesis using toggle_tools_string[of b ts s v'] assms by simp
next
  case ApproveOther
  then show ?thesis using toggle_tools_other[of b ts v'] assms by simp
qed

lemma toggle_tools_nonempty:
  assumes "toggle_tools b ts v = Some v'" and "v \<noteq> ApproveString []"
  shows "v' \<noteq> ApproveString []"
proof (cases v)
  case (ApproveArray l)
  then show ?thesis using toggle_tools_array[of b ts l] assms by auto
next
  case (ApproveString s)
  then show ?thesis using toggle_tools_string[of b ts s v'] assms by simp
next
  case ApproveOther
  then show ?thesis using toggle_tools_other[of b ts v'] assms by simp
qed

lemma or_empty_nonempty [simp]: "or_empty x \<noteq> ApproveString []"
  by (simp add: or_empty_def split: option.splits)

lemma or_empty_Some: "v \<noteq> ApproveString [] \<Longrightarrow> or_empty (Some v) = v"
  by (simp add: or_empty_def)

lemma mark_tools_array:
  "mark_tools (ApproveArray l) tls =
     Some (map (\<lambda>t. t\<lparr>tool_autoApprove := Some (tool_name t \<in> set l)\<rparr>) tls)"
  by (induction tls) (simp_all add: includes_name_def)

subsubsection \<open>The file\<close>

lemma getMcpSettingsFilePath_Some:
  "settingsFile h = Some c \<Longrightarrow> getMcpSettingsFilePath h = h"
  by (simp add: getMcpSettingsFilePath_def)

lemma getMcpSettingsFilePath_file:
  "settingsFile (getMcpSettingsFilePath h) =
     Some (case settingsFile h of None \<Rightarrow> template | Some c \<Rightarrow> c)"
  by (simp add: getMcpSettingsFilePath_def split: option.splits)

lemma ensured_file: "settingsFile (getMcpSettingsFilePath h) = Some (ensured h)"
  by (simp add: getMcpSettingsFilePath_def readFile_def split: option.splits)

lemma update_connection_fields [simp]:
  "settingsFile (update_connection nm f h) = settingsFile h"
  "trace (update_connection nm f h) = trace h"
  "pendingNotifications (update_connection nm f h) = pendingNotifications h"
  "fileWatchers (update_connection nm f h) = fileWatchers h"
  "clientVersion (update_connection nm f h) = clientVersion h"
  by (simp_all add: update_connection_def)

lemma writeFile_fields [simp]:
  "settingsFile (writeFile c h) = Some c"
  "connections (writeFile c h) = connections h"
  "trace (writeFile c h) = trace h @ [WriteFile c]"
  by (simp_all add: writeFile_def)


lemma file_cong: "settingsFile h' = settingsFile h \<Longrightarrow> ensured h' = ensured h"
  by (simp add: getMcpSettingsFilePath_def readFile_def split: option.splits)

lemma read_autoApprove_cong:
  "settingsFile h' = settingsFile h \<Longrightarrow> read_autoApprove h' nm = read_autoApprove h nm"
  using file_cong[of h' h] by (simp add: read_autoApprove_def)

lemma approved_names_cong:
  "settingsFile h' = settingsFile h \<Longrightarrow> approved_names h' nm = approved_names h nm"
  using read_autoApprove_cong[of h' h nm] by (simp add: approved_names_def)

text \<open>What \<open>toggle_write\<close> returns and leaves in the file, by the content of the file.\<close>

lemma toggle_write_entry:
  assumes "ensured h = Json (Some servers)" and "map_of servers nm = Some entry"
  shows "toggle_write nm ts b h =
     (case toggle_tools b ts (or_empty (cfg_autoApprove entry)) of
        None \<Rightarrow> (Inl type_error, getMcpSettingsFilePath h)
      | Some aa \<Rightarrow>
          (Inr (aa, AList.update nm (entry\<lparr>cfg_autoApprove := Some aa\<rparr>) servers),
           writeFile (Json (Some (AList.update nm (entry\<lparr>cfg_autoApprove := Some aa\<rparr>) servers)))
             (getMcpSettingsFilePath h)))"
  using assms by (simp add: toggle_write_def Let_def split: option.splits)

lemma toggle_write_no_entry:
  assumes "\<not> (\<exists>servers entry. ensured h = Json (Some servers) \<and> map_of servers nm = Some entry)"
  shows "\<exists>e. toggle_write nm ts b h = (Inl e, getMcpSettingsFilePath h)"
proof (cases "ensured h")
  case NotJson
  then show ?thesis by (simp add: toggle_write_def Let_def)
next
  case (Json ms)
  then show ?thesis using assms
    by (cases ms) (auto simp: toggle_write_def Let_def split: option.splits)
qed

lemma toggle_write_throws:
  "fst (toggle_write nm ts b h) = Inl e \<Longrightarrow> snd (toggle_write nm ts b h) = getMcpSettingsFilePath h"
  by (auto simp: toggle_write_def Let_def split: file_content.splits option.splits)

lemma getMcpSettingsFilePath_idem:
  "getMcpSettingsFilePath (getMcpSettingsFilePath h) = getMcpSettingsFilePath h"
  by (simp add: getMcpSettingsFilePath_def split: option.splits)

lemma ensured_written: "settingsFile h = Some c \<Longrightarrow> ensured h = c"
  by (simp add: getMcpSettingsFilePath_def readFile_def)

lemma toggle_write_ok_file:
  assumes "toggle_write nm ts b h = (Inr (aa, servers'), h2)"
  shows "settingsFile h2 = Some (Json (Some servers'))"
  using assms
  by (auto simp: toggle_write_def Let_def split: file_content.splits option.splits)

text \<open>The second of two identical writes leaves the file as the first left it.\<close>

lemma toggle_write_twice:
  assumes c: "b \<or> (\<forall>l. read_autoApprove h nm = Some (ApproveArray l) \<longrightarrow> distinct l)"
  shows "settingsFile (snd (toggle_write nm ts b (snd (toggle_write nm ts b h)))) =
         settingsFile (snd (toggle_write nm ts b h))"
proof (cases "\<exists>servers entry. ensured h = Json (Some servers) \<and> map_of servers nm = Some entry")
  case False
  from toggle_write_no_entry[OF this, of ts b] obtain e where
    w: "toggle_write nm ts b h = (Inl e, getMcpSettingsFilePath h)" by blast
  have "\<not> (\<exists>servers entry. ensured (getMcpSettingsFilePath h) = Json (Some servers) \<and>
            map_of servers nm = Some entry)"
    using False unfolding getMcpSettingsFilePath_idem .
  from toggle_write_no_entry[OF this, of ts b] obtain e' where
    "toggle_write nm ts b (getMcpSettingsFilePath h) =
       (Inl e', getMcpSettingsFilePath (getMcpSettingsFilePath h))" by blast
  then show ?thesis by (simp add: w getMcpSettingsFilePath_idem)
next
  case True
  then obtain servers entry where
    f: "ensured h = Json (Some servers)" and e: "map_of servers nm = Some entry"
    by blast
  note w = toggle_write_entry[OF f e, of ts b]
  show ?thesis
  proof (cases "toggle_tools b ts (or_empty (cfg_autoApprove entry))")
    case None
    have f': "ensured (getMcpSettingsFilePath h) = Json (Some servers)"
      using f unfolding getMcpSettingsFilePath_idem .
    show ?thesis
      using None w toggle_write_entry[OF f' e, of ts b]
      by (simp add: getMcpSettingsFilePath_idem)
  next
    case (Some aa)
    let ?entry = "entry\<lparr>cfg_autoApprove := Some aa\<rparr>"
    let ?servers = "AList.update nm ?entry servers"
    let ?h = "writeFile (Json (Some ?servers)) (getMcpSettingsFilePath h)"
    have w1: "toggle_write nm ts b h = (Inr (aa, ?servers), ?h)"
      using w Some by simp
    have f1: "ensured ?h = Json (Some ?servers)"
      by (rule ensured_written) simp
    have e1: "map_of ?servers nm = Some ?entry"
      by (simp add: update_conv')
    have ne: "aa \<noteq> ApproveString []"
      using toggle_tools_nonempty[OF Some] by simp
    have v: "read_autoApprove h nm = Some (or_empty (cfg_autoApprove entry))"
      by (simp add: read_autoApprove_def f autoApproveConfig_def e)
    have "toggle_tools b ts aa = Some aa"
    proof (rule toggle_tools_again[OF Some])
      show "b \<or> (\<forall>l. or_empty (cfg_autoApprove entry) = ApproveArray l \<longrightarrow> distinct l)"
        using c v by simp
    qed
    then have again: "toggle_tools b ts (or_empty (cfg_autoApprove ?entry)) = Some aa"
      using ne by (simp add: or_empty_Some)
    have "toggle_write nm ts b ?h =
            (Inr (aa, AList.update nm (?entry\<lparr>cfg_autoApprove := Some aa\<rparr>) ?servers),
             writeFile (Json (Some (AList.update nm (?entry\<lparr>cfg_autoApprove := Some aa\<rparr>)
               ?servers))) (getMcpSettingsFilePath ?h))"
      using toggle_write_entry[OF f1 e1, of ts b] again by simp
    then show ?thesis by (simp add: w1)
  qed
qed

lemma toggle_write_cong:
  assumes "settingsFile h' = settingsFile h"
  shows "settingsFile (snd (toggle_write nm ts b h')) = settingsFile (snd (toggle_write nm ts b h))"
proof -
  have e: "ensured h' = ensured h" using assms by (rule file_cong)
  have f: "settingsFile (getMcpSettingsFilePath h') = settingsFile (getMcpSettingsFilePath h)"
    by (simp add: ensured_file e)
  show ?thesis
    unfolding toggle_write_def Let_def e
    using f by (simp split: file_content.splits option.splits)
qed

text \<open>Both variants leave the file as \<open>toggle_write\<close> left it.\<close>

lemma toggle_file:
  "settingsFile (snd (toggleToolAutoApprove nm ts b h)) = settingsFile (snd (toggle_write nm ts b h))"
proof -
  obtain r h2 where w: "toggle_write nm ts b h = (r, h2)"
    by (cases "toggle_write nm ts b h")
  show ?thesis
  proof (cases r)
    case (Inl e)
    then show ?thesis by (simp add: toggleToolAutoApprove_def w approve_failed_def)
  next
    case (Inr p)
    obtain aa servers' where p: "p = (aa, servers')" by (cases p)
    have f2: "settingsFile h2 = Some (Json (Some servers'))"
      using toggle_write_ok_file[of nm ts b h aa servers' h2] w Inr p by simp
    show ?thesis
    proof (cases "find (named nm) (connections h2)")
      case None
      then show ?thesis by (simp add: toggleToolAutoApprove_def w Inr p)
    next
      case (Some connection)
      note conn = Some
      show ?thesis
      proof (cases "tools (server connection)")
        case None
        then show ?thesis using conn by (simp add: toggleToolAutoApprove_def w Inr p)
      next
        case (Some tls)
        note tl = Some
        show ?thesis
        proof (cases "mark_tools aa tls")
          case None
          then show ?thesis
            using conn tl by (simp add: toggleToolAutoApprove_def w Inr p approve_failed_def)
        next
          case (Some marked)
          let ?h3 = "update_connection nm (set_tools marked) h2"
          have "settingsFile ?h3 = Some (Json (Some servers'))" using f2 by simp
          from notifyWebviewOfServerChanges_publishes[OF this]
          show ?thesis
            using conn tl Some f2 by (simp add: toggleToolAutoApprove_def w Inr p)
        qed
      qed
    qed
  qed
qed

lemma toggle_file_RPC:
  "settingsFile (snd (toggleToolAutoApproveRPC nm ts b h)) = settingsFile (snd (toggle_write nm ts b h))"
proof -
  obtain r h2 where w: "toggle_write nm ts b h = (r, h2)"
    by (cases "toggle_write nm ts b h")
  show ?thesis
  proof (cases r)
    case (Inl e)
    then show ?thesis by (simp add: toggleToolAutoApproveRPC_def w)
  next
    case (Inr p)
    obtain aa servers' where p: "p = (aa, servers')" by (cases p)
    show ?thesis
      by (simp add: toggleToolAutoApproveRPC_def w Inr p Let_def split: option.splits)
  qed
qed

text \<open>Two identical calls, for every state of the file.\<close>

lemma toggle_twice:
  assumes "b \<or> (\<forall>l. read_autoApprove h nm = Some (ApproveArray l) \<longrightarrow> distinct l)"
  shows "settingsFile (snd (toggleToolAutoApprove nm ts b (snd (toggleToolAutoApprove nm ts b h)))) =
         settingsFile (snd (toggleToolAutoApprove nm ts b h))"
proof -
  have "settingsFile (snd (toggleToolAutoApprove nm ts b (snd (toggleToolAutoApprove nm ts b h)))) =
        settingsFile (snd (toggle_write nm ts b (snd (toggleToolAutoApprove nm ts b h))))"
    by (rule toggle_file)
  also have "\<dots> = settingsFile (snd (toggle_write nm ts b (snd (toggle_write nm ts b h))))"
    by (rule toggle_write_cong) (rule toggle_file)
  also have "\<dots> = settingsFile (snd (toggle_write nm ts b h))"
    using assms by (rule toggle_write_twice)
  also have "\<dots> = settingsFile (snd (toggleToolAutoApprove nm ts b h))"
    by (rule toggle_file[symmetric])
  finally show ?thesis .
qed

text \<open>One call on a file that has an entry for the server with an array.\<close>

lemma toggle_once:
  assumes f: "ensured h = Json (Some servers)" and e: "map_of servers nm = Some entry"
    and a: "approved_names h nm = Some l"
  shows "\<exists>l' servers' entry'.
           fst (toggleToolAutoApprove nm ts b h) = Inr ()
         \<and> approved_names (snd (toggleToolAutoApprove nm ts b h)) nm = Some l'
         \<and> ensured (snd (toggleToolAutoApprove nm ts b h)) = Json (Some servers')
         \<and> map_of servers' nm = Some entry'
         \<and> (b \<longrightarrow> set l' = set l \<union> set ts)
         \<and> (\<not> b \<longrightarrow> mset l' = mset l - mset ts)
         \<and> (\<not> b \<and> distinct l \<longrightarrow> set l' = set l - set ts)
         \<and> (distinct l \<longrightarrow> distinct l')"
proof -
  have v: "or_empty (cfg_autoApprove entry) = ApproveArray l"
    using a by (simp add: approved_names_def read_autoApprove_def f autoApproveConfig_def e
        split: approve_value.splits)
  from toggle_tools_array[of b ts l] obtain l' where
    t: "toggle_tools b ts (ApproveArray l) = Some (ApproveArray l')"
    and p: "b \<longrightarrow> set l' = set l \<union> set ts" "\<not> b \<longrightarrow> mset l' = mset l - mset ts"
      "\<not> b \<and> distinct l \<longrightarrow> set l' = set l - set ts" "distinct l \<longrightarrow> distinct l'"
    by blast
  let ?entry = "entry\<lparr>cfg_autoApprove := Some (ApproveArray l')\<rparr>"
  let ?servers = "AList.update nm ?entry servers"
  let ?h = "writeFile (Json (Some ?servers)) (getMcpSettingsFilePath h)"
  have w: "toggle_write nm ts b h = (Inr (ApproveArray l', ?servers), ?h)"
    using toggle_write_entry[OF f e, of ts b] v t by simp
  have f2: "settingsFile ?h = Some (Json (Some ?servers))" by simp
  have r: "fst (toggleToolAutoApprove nm ts b h) = Inr ()"
  proof (cases "find (named nm) (connections ?h)")
    case None
    then show ?thesis by (simp add: toggleToolAutoApprove_def w)
  next
    case (Some connection)
    note conn = Some
    show ?thesis
    proof (cases "tools (server connection)")
      case None
      then show ?thesis using conn by (simp add: toggleToolAutoApprove_def w)
    next
      case (Some tls)
      let ?h3 = "update_connection nm (set_tools (map (\<lambda>t. t\<lparr>tool_autoApprove :=
                   Some (tool_name t \<in> set l')\<rparr>) tls)) ?h"
      have "settingsFile ?h3 = Some (Json (Some ?servers))" by simp
      from notifyWebviewOfServerChanges_publishes[OF this]
      show ?thesis
        using conn Some by (simp add: toggleToolAutoApprove_def w mark_tools_array)
    qed
  qed
  have s: "settingsFile (snd (toggleToolAutoApprove nm ts b h)) = Some (Json (Some ?servers))"
    by (simp add: toggle_file w)
  have en: "ensured (snd (toggleToolAutoApprove nm ts b h)) = Json (Some ?servers)"
    using s by (rule ensured_written)
  have m: "map_of ?servers nm = Some ?entry" by (simp add: update_conv')
  have "approved_names (snd (toggleToolAutoApprove nm ts b h)) nm = Some l'"
    by (simp add: approved_names_def read_autoApprove_def en autoApproveConfig_def m or_empty_def)
  then show ?thesis using r en m p by blast
qed

text \<open>A call on a file that has no entry for the server throws and changes nothing.\<close>

lemma toggle_no_entry:
  assumes f: "ensured h = Json (Some servers)" and e: "map_of servers nm = None"
  shows "fst (toggleToolAutoApprove nm ts b h) = Inl type_error \<and>
         settingsFile (snd (toggleToolAutoApprove nm ts b h)) = Some (ensured h)"
proof -
  have w: "toggle_write nm ts b h = (Inl type_error, getMcpSettingsFilePath h)"
    using f e by (simp add: toggle_write_def Let_def)
  show ?thesis
    by (simp add: toggleToolAutoApprove_def w approve_failed_def ensured_file)
qed

text \<open>
  C9, as the code has it. \<open>approved_names\<close> is the array read back from the file for the
  server.

  \<^item> Idempotence, for every state of the file: when the flag is true, or the value read
    for the server is not an array that names a tool twice, a second call of
    \<open>toggleToolAutoApprove\<close> with the same arguments leaves the file as the first call
    left it.
  \<^item> The set, when the file is JSON with an entry for the server and an array \<open>l\<close> is read
    for it (also the empty array of an absent value): the call returns normally; with
    the flag the set read back is \<open>set l \<union> set toolNames\<close>; without it the names read
    back are those of \<open>l\<close> less one occurrence for each occurrence in \<open>toolNames\<close>
    (one \<^verbatim>\<open>splice(toolIndex, 1)\<close> for each), which is \<open>set l - set toolNames\<close> when \<open>l\<close>
    names no tool twice.
  \<^item> Order, under the same conditions with the flag true or \<open>l\<close> without repeated names:
    the set read back is the same for every list with the same set of tool names, and
    two calls with the same flag leave the same set in either order.
  \<^item> When the file has no entry for the server the call throws and the file is unchanged.
  \<^item> The RPC variant leaves the same file.
\<close>

theorem auto_approve_toggle:
  "((shouldAllow \<or> (\<forall>l. read_autoApprove h serverName = Some (ApproveArray l) \<longrightarrow> distinct l)) \<longrightarrow>
      settingsFile (snd (toggleToolAutoApprove serverName toolNames shouldAllow
             (snd (toggleToolAutoApprove serverName toolNames shouldAllow h)))) =
      settingsFile (snd (toggleToolAutoApprove serverName toolNames shouldAllow h)))
   \<and> (\<forall>servers entry l.
         ensured h = Json (Some servers) \<and> map_of servers serverName = Some entry \<and>
         approved_names h serverName = Some l \<longrightarrow>
         fst (toggleToolAutoApprove serverName toolNames shouldAllow h) = Inr ()
         \<and> (shouldAllow \<longrightarrow>
              map_option set (approved_names
                (snd (toggleToolAutoApprove serverName toolNames shouldAllow h)) serverName) =
              Some (set l \<union> set toolNames))
         \<and> (\<not> shouldAllow \<longrightarrow>
              map_option mset (approved_names
                (snd (toggleToolAutoApprove serverName toolNames shouldAllow h)) serverName) =
              Some (mset l - mset toolNames))
         \<and> (\<not> shouldAllow \<and> distinct l \<longrightarrow>
              map_option set (approved_names
                (snd (toggleToolAutoApprove serverName toolNames shouldAllow h)) serverName) =
              Some (set l - set toolNames))
         \<and> (shouldAllow \<or> distinct l \<longrightarrow>
              (\<forall>toolNames'. set toolNames' = set toolNames \<longrightarrow>
                 map_option set (approved_names
                   (snd (toggleToolAutoApprove serverName toolNames' shouldAllow h)) serverName) =
                 map_option set (approved_names
                   (snd (toggleToolAutoApprove serverName toolNames shouldAllow h)) serverName))
              \<and> (\<forall>otherNames.
                 map_option set (approved_names
                   (snd (toggleToolAutoApprove serverName otherNames shouldAllow
                      (snd (toggleToolAutoApprove serverName toolNames shouldAllow h))))
                   serverName) =
                 map_option set (approved_names
                   (snd (toggleToolAutoApprove serverName toolNames shouldAllow
                      (snd (toggleToolAutoApprove serverName otherNames shouldAllow h))))
                   serverName))))
   \<and> (\<forall>servers.
         ensured h = Json (Some servers) \<and> map_of servers serverName = None \<longrightarrow>
         fst (toggleToolAutoApprove serverName toolNames shouldAllow h) = Inl type_error \<and>
         settingsFile (snd (toggleToolAutoApprove serverName toolNames shouldAllow h)) =
           Some (ensured h))
   \<and> settingsFile (snd (toggleToolAutoApproveRPC serverName toolNames shouldAllow h)) =
       settingsFile (snd (toggleToolAutoApprove serverName toolNames shouldAllow h))"
proof -
  have idem: "settingsFile (snd (toggleToolAutoApprove serverName toolNames shouldAllow
             (snd (toggleToolAutoApprove serverName toolNames shouldAllow h)))) =
      settingsFile (snd (toggleToolAutoApprove serverName toolNames shouldAllow h))"
    if "shouldAllow \<or> (\<forall>l. read_autoApprove h serverName = Some (ApproveArray l) \<longrightarrow> distinct l)"
    using that by (rule toggle_twice)
  have array: "fst (toggleToolAutoApprove serverName toolNames shouldAllow h) = Inr ()
         \<and> (shouldAllow \<longrightarrow>
              map_option set (approved_names
                (snd (toggleToolAutoApprove serverName toolNames shouldAllow h)) serverName) =
              Some (set l \<union> set toolNames))
         \<and> (\<not> shouldAllow \<longrightarrow>
              map_option mset (approved_names
                (snd (toggleToolAutoApprove serverName toolNames shouldAllow h)) serverName) =
              Some (mset l - mset toolNames))
         \<and> (\<not> shouldAllow \<and> distinct l \<longrightarrow>
              map_option set (approved_names
                (snd (toggleToolAutoApprove serverName toolNames shouldAllow h)) serverName) =
              Some (set l - set toolNames))
         \<and> (shouldAllow \<or> distinct l \<longrightarrow>
              (\<forall>toolNames'. set toolNames' = set toolNames \<longrightarrow>
                 map_option set (approved_names
                   (snd (toggleToolAutoApprove serverName toolNames' shouldAllow h)) serverName) =
                 map_option set (approved_names
                   (snd (toggleToolAutoApprove serverName toolNames shouldAllow h)) serverName))
              \<and> (\<forall>otherNames.
                 map_option set (approved_names
                   (snd (toggleToolAutoApprove serverName otherNames shouldAllow
                      (snd (toggleToolAutoApprove serverName toolNames shouldAllow h))))
                   serverName) =
                 map_option set (approved_names
                   (snd (toggleToolAutoApprove serverName toolNames shouldAllow
                      (snd (toggleToolAutoApprove serverName otherNames shouldAllow h))))
                   serverName)))"
    if f: "ensured h = Json (Some servers)" and e: "map_of servers serverName = Some entry"
      and a: "approved_names h serverName = Some l" for servers entry l
  proof -
    note once = toggle_once[OF f e a]
    have one: "map_option set (approved_names
                (snd (toggleToolAutoApprove serverName ts shouldAllow h)) serverName) =
              Some (if shouldAllow then set l \<union> set ts else set l - set ts)"
      if "shouldAllow \<or> distinct l" for ts
      using once[of ts shouldAllow] that by auto
    have two: "map_option set (approved_names
                   (snd (toggleToolAutoApprove serverName ts2 shouldAllow
                      (snd (toggleToolAutoApprove serverName ts1 shouldAllow h))))
                   serverName) =
               Some (if shouldAllow then set l \<union> set ts1 \<union> set ts2
                     else set l - set ts1 - set ts2)"
      if c: "shouldAllow \<or> distinct l" for ts1 ts2
    proof -
      let ?h = "snd (toggleToolAutoApprove serverName ts1 shouldAllow h)"
      from once[of ts1 shouldAllow] obtain l1 servers1 entry1 where
        a1: "approved_names ?h serverName = Some l1"
        and f1: "ensured ?h = Json (Some servers1)"
        and e1: "map_of servers1 serverName = Some entry1"
        and s1: "shouldAllow \<longrightarrow> set l1 = set l \<union> set ts1"
          "\<not> shouldAllow \<and> distinct l \<longrightarrow> set l1 = set l - set ts1"
          "distinct l \<longrightarrow> distinct l1"
        by blast
      from toggle_once[OF f1 e1 a1, of ts2 shouldAllow] obtain l2 where
        a2: "approved_names (snd (toggleToolAutoApprove serverName ts2 shouldAllow ?h))
               serverName = Some l2"
        and s2: "shouldAllow \<longrightarrow> set l2 = set l1 \<union> set ts2"
          "\<not> shouldAllow \<and> distinct l1 \<longrightarrow> set l2 = set l1 - set ts2"
        by blast
      show ?thesis using a2 s1 s2 c by auto
    qed
    have r: "fst (toggleToolAutoApprove serverName toolNames shouldAllow h) = Inr ()"
      using once[of toolNames shouldAllow] by blast
    have m: "map_option mset (approved_names
                (snd (toggleToolAutoApprove serverName toolNames shouldAllow h)) serverName) =
              Some (mset l - mset toolNames)" if "\<not> shouldAllow"
      using once[of toolNames shouldAllow] that by auto
    have sw: "set l \<union> set ts1 \<union> set ts2 = set l \<union> set ts2 \<union> set ts1"
      "set l - set ts1 - set ts2 = set l - set ts2 - set ts1" for ts1 ts2 :: "string list"
      by auto
    show ?thesis
    proof (intro conjI impI allI)
      show "fst (toggleToolAutoApprove serverName toolNames shouldAllow h) = Inr ()" by (rule r)
      show "map_option set (approved_names
                (snd (toggleToolAutoApprove serverName toolNames shouldAllow h)) serverName) =
              Some (set l \<union> set toolNames)" if "shouldAllow"
        using one[of toolNames] that by simp
      show "map_option mset (approved_names
                (snd (toggleToolAutoApprove serverName toolNames shouldAllow h)) serverName) =
              Some (mset l - mset toolNames)" if "\<not> shouldAllow"
        using m that by simp
      show "map_option set (approved_names
                (snd (toggleToolAutoApprove serverName toolNames shouldAllow h)) serverName) =
              Some (set l - set toolNames)" if "\<not> shouldAllow \<and> distinct l"
        using one[of toolNames] that by simp
      show "map_option set (approved_names
                   (snd (toggleToolAutoApprove serverName toolNames' shouldAllow h)) serverName) =
                 map_option set (approved_names
                   (snd (toggleToolAutoApprove serverName toolNames shouldAllow h)) serverName)"
        if "shouldAllow \<or> distinct l" and "set toolNames' = set toolNames" for toolNames'
        using one[OF that(1), of toolNames'] one[OF that(1), of toolNames] that(2)
        by (simp del: map_option_eq_Some)
      show "map_option set (approved_names
                   (snd (toggleToolAutoApprove serverName otherNames shouldAllow
                      (snd (toggleToolAutoApprove serverName toolNames shouldAllow h))))
                   serverName) =
                 map_option set (approved_names
                   (snd (toggleToolAutoApprove serverName toolNames shouldAllow
                      (snd (toggleToolAutoApprove serverName otherNames shouldAllow h))))
                   serverName)"
        if "shouldAllow \<or> distinct l" for otherNames
        using two[OF that, of otherNames toolNames] two[OF that, of toolNames otherNames]
          sw[of toolNames otherNames] by (simp del: map_option_eq_Some)
    qed
  qed
  have none: "fst (toggleToolAutoApprove serverName toolNames shouldAllow h) = Inl type_error \<and>
         settingsFile (snd (toggleToolAutoApprove serverName toolNames shouldAllow h)) =
           Some (ensured h)"
    if "ensured h = Json (Some servers) \<and> map_of servers serverName = None" for servers
    using that toggle_no_entry by blast
  have rpc: "settingsFile (snd (toggleToolAutoApproveRPC serverName toolNames shouldAllow h)) =
       settingsFile (snd (toggleToolAutoApprove serverName toolNames shouldAllow h))"
    by (simp add: toggle_file toggle_file_RPC)
  show ?thesis
    using idem array none rpc by blast
qed

lemmas toggle_eval = toggleToolAutoApprove_def toggle_write_def getMcpSettingsFilePath_def
  readFile_def writeFile_def read_autoApprove_def approved_names_def autoApproveConfig_def
  or_empty_def value_indexOf_def value_push_def value_splice_def includes_name_def splice1_def
  notifyWebviewOfServerChanges_def update_connection_def approve_failed_def Let_def

theorem auto_approve_toggle_witness:
  "read_autoApprove hub_approve ''A'' = Some (ApproveArray [''search'', ''fetch''])
   \<and> distinct [''search'', ''fetch'']
   \<and> ensured hub_approve =
       Json (Some [(''A'', stdio_config\<lparr>cfg_autoApprove :=
                      Some (ApproveArray [''search'', ''fetch''])\<rparr>)])
   \<and> map_of [(''A'', stdio_config\<lparr>cfg_autoApprove :=
                      Some (ApproveArray [''search'', ''fetch''])\<rparr>)] ''A'' =
       Some (stdio_config\<lparr>cfg_autoApprove := Some (ApproveArray [''search'', ''fetch''])\<rparr>)
   \<and> approved_names hub_approve ''A'' = Some [''search'', ''fetch'']
   \<and> fst (toggleToolAutoApprove ''A'' [''search'', ''list''] False hub_approve) = Inr ()
   \<and> approved_names (snd (toggleToolAutoApprove ''A'' [''search'', ''list''] False hub_approve))
         ''A'' = Some [''fetch'']
   \<and> settingsFile (snd (toggleToolAutoApprove ''A'' [''search'', ''list''] False
         (snd (toggleToolAutoApprove ''A'' [''search'', ''list''] False hub_approve)))) =
       settingsFile (snd (toggleToolAutoApprove ''A'' [''search'', ''list''] False hub_approve))
   \<and> set [''list'', ''search'', ''search''] = set [''search'', ''list'']
   \<and> approved_names (snd (toggleToolAutoApprove ''A'' [''list'', ''search'', ''search''] False
         hub_approve)) ''A'' = Some [''fetch'']
   \<and> approved_names (snd (toggleToolAutoApprove ''A'' [''fetch''] False
         (snd (toggleToolAutoApprove ''A'' [''search'', ''list''] False hub_approve)))) ''A'' =
       Some []
   \<and> approved_names (snd (toggleToolAutoApprove ''A'' [''search'', ''list''] False
         (snd (toggleToolAutoApprove ''A'' [''fetch''] False hub_approve)))) ''A'' =
       Some []
   \<and> map_of [(''A'', stdio_config\<lparr>cfg_autoApprove :=
                      Some (ApproveArray [''search'', ''fetch''])\<rparr>)] ''B'' = None
   \<and> fst (toggleToolAutoApprove ''B'' [''search''] True hub_approve) = Inl type_error
   \<and> settingsFile (snd (toggleToolAutoApprove ''B'' [''search''] True hub_approve)) =
       settingsFile hub_approve"
proof -
  have a: "read_autoApprove hub_approve ''A'' = Some (ApproveArray [''search'', ''fetch''])"
    "ensured hub_approve =
       Json (Some [(''A'', stdio_config\<lparr>cfg_autoApprove :=
                      Some (ApproveArray [''search'', ''fetch''])\<rparr>)])"
    "approved_names hub_approve ''A'' = Some [''search'', ''fetch'']"
    "settingsFile hub_approve = Some (Json (Some [(''A'', stdio_config\<lparr>cfg_autoApprove :=
                      Some (ApproveArray [''search'', ''fetch''])\<rparr>)]))"
    by (simp_all add: hub_approve_def toggle_eval example_defs)
  have b: "approved_names (snd (toggleToolAutoApprove ''A'' [''search'', ''list''] False hub_approve))
         ''A'' = Some [''fetch'']"
    "approved_names (snd (toggleToolAutoApprove ''A'' [''list'', ''search'', ''search''] False
         hub_approve)) ''A'' = Some [''fetch'']"
    "approved_names (snd (toggleToolAutoApprove ''A'' [''fetch''] False
         (snd (toggleToolAutoApprove ''A'' [''search'', ''list''] False hub_approve)))) ''A'' =
       Some []"
    "approved_names (snd (toggleToolAutoApprove ''A'' [''search'', ''list''] False
         (snd (toggleToolAutoApprove ''A'' [''fetch''] False hub_approve)))) ''A'' =
       Some []"
    by (simp_all add: hub_approve_def toggle_eval example_defs)
  have c: "(\<forall>l. read_autoApprove hub_approve ''A'' = Some (ApproveArray l) \<longrightarrow> distinct l)"
    by (simp add: a)
  have d: "set [''list'', ''search'', ''search''] = set [''search'', ''list'']"
    by auto
  show ?thesis
    using auto_approve_toggle[of False hub_approve "''A''" "[''search'', ''list'']"]
      auto_approve_toggle[of True hub_approve "''B''" "[''search'']"] a b c d
    by simp
qed

text \<open>
  The claim C9 speaks of every settings state. Three states for which it fails. A file
  whose array names a tool twice: removing that tool once leaves it approved, and only
  the second identical call removes it. A file without an entry for the server: the call
  throws and the set read back is the prior one, without the tool name to add. A file
  whose value for the server is a string: the call throws at \<^verbatim>\<open>push\<close> and no array is
  read back.
\<close>

theorem auto_approve_toggle_restrictions:
  "approved_names hub_dup ''A'' = Some [''search'', ''search'']
   \<and> approved_names (snd (toggleToolAutoApprove ''A'' [''search''] False hub_dup)) ''A'' =
       Some [''search'']
   \<and> approved_names (snd (toggleToolAutoApprove ''A'' [''search''] False
         (snd (toggleToolAutoApprove ''A'' [''search''] False hub_dup)))) ''A'' = Some []
   \<and> set [''search''] \<noteq> set [''search'', ''search''] - set [''search'']
   \<and> approved_names empty_hub ''A'' = Some []
   \<and> fst (toggleToolAutoApprove ''A'' [''search''] True empty_hub) = Inl type_error
   \<and> approved_names (snd (toggleToolAutoApprove ''A'' [''search''] True empty_hub)) ''A'' =
       Some []
   \<and> read_autoApprove hub_string ''A'' = Some (ApproveString ''search,fetch'')
   \<and> fst (toggleToolAutoApprove ''A'' [''list''] True hub_string) = Inl type_error
   \<and> read_autoApprove (snd (toggleToolAutoApprove ''A'' [''list''] True hub_string)) ''A'' =
       Some (ApproveString ''search,fetch'')
   \<and> approved_names (snd (toggleToolAutoApprove ''A'' [''list''] True hub_string)) ''A'' = None"
  by (simp add: hub_dup_def hub_string_def toggle_eval example_defs)

subsection \<open>Adding a remote server\<close>

lemma readAndValidate_Some:
  "readAndValidateMcpSettingsFile ev h = (Some servers, h1) \<Longrightarrow> h1 = getMcpSettingsFilePath h"
  by (auto simp: readAndValidateMcpSettingsFile_def Let_def split: file_content.splits option.splits)

lemma addRemoteServer_exists:
  assumes "readAndValidateMcpSettingsFile ev h = (Some servers, h1)"
    and "serverName \<in> set (map fst servers)"
  shows "addRemoteServer ev serverName serverUrl h =
     (Inl (Error (''An MCP server with the name '' @ quoted serverName @ '' already exists'')),
      emit (ConsoleError ''Failed to add remote MCP server:'') (getMcpSettingsFilePath h))"
proof -
  have "map_of servers serverName \<noteq> None"
    using assms(2) by (simp add: map_of_eq_None_iff)
  then show ?thesis
    using assms(1) readAndValidate_Some[OF assms(1)]
    by (simp add: addRemoteServer_def add_failed_def)
qed

lemma addRemoteServer_bad_url:
  assumes "readAndValidateMcpSettingsFile ev h = (Some servers, h1)"
    and "serverName \<notin> set (map fst servers)"
    and "\<not> url_valid ev serverUrl"
  shows "addRemoteServer ev serverName serverUrl h =
     (Inl (Error (''Invalid server URL: '' @ serverUrl @ ''. Please provide a valid URL.'')),
      emit (ConsoleError ''Failed to add remote MCP server:'') (getMcpSettingsFilePath h))"
proof -
  have "map_of servers serverName = None"
    using assms(2) by (simp add: map_of_eq_None_iff)
  then show ?thesis
    using assms(1,3) readAndValidate_Some[OF assms(1)]
    by (simp add: addRemoteServer_def add_failed_def)
qed

lemma failed_add_state:
  "connections (emit (ConsoleError msg) (getMcpSettingsFilePath h)) = connections h \<and>
   settingsFile (emit (ConsoleError msg) (getMcpSettingsFilePath h)) =
     Some (case settingsFile h of None \<Rightarrow> template | Some c \<Rightarrow> c) \<and>
   trace (emit (ConsoleError msg) (getMcpSettingsFilePath h)) =
     trace h @ (case settingsFile h of None \<Rightarrow> [WriteFile template] | Some c \<Rightarrow> []) @
       [ConsoleError msg]"
  by (simp add: getMcpSettingsFilePath_def split: option.splits)

text \<open>
  C10, as the code has it. When the validated settings already have the name as a key,
  or when they do not and the URL fails validation, \<open>addRemoteServer\<close> throws the
  corresponding error, the registry is unchanged, and the only effects are the
  \<^verbatim>\<open>console.error\<close> of the catch block and, when the settings file did not exist, its
  creation with the empty template by the initial read. A settings file that exists is
  not written.
\<close>

theorem addRemoteServer_rejects:
  assumes "readAndValidateMcpSettingsFile ev h = (Some servers, h1)"
    and "serverName \<in> set (map fst servers) \<or> \<not> url_valid ev serverUrl"
  shows "fst (addRemoteServer ev serverName serverUrl h) =
           Inl (Error (if serverName \<in> set (map fst servers)
                       then ''An MCP server with the name '' @ quoted serverName @ '' already exists''
                       else ''Invalid server URL: '' @ serverUrl @ ''. Please provide a valid URL.''))
         \<and> connections (snd (addRemoteServer ev serverName serverUrl h)) = connections h
         \<and> settingsFile (snd (addRemoteServer ev serverName serverUrl h)) =
             Some (case settingsFile h of None \<Rightarrow> template | Some c \<Rightarrow> c)
         \<and> trace (snd (addRemoteServer ev serverName serverUrl h)) =
             trace h @ (case settingsFile h of None \<Rightarrow> [WriteFile template] | Some c \<Rightarrow> []) @
               [ConsoleError ''Failed to add remote MCP server:'']"
proof (cases "serverName \<in> set (map fst servers)")
  case True
  show ?thesis
    unfolding addRemoteServer_exists[OF assms(1) True]
    using True failed_add_state[of "''Failed to add remote MCP server:''" h] by simp
next
  case False
  then have u: "\<not> url_valid ev serverUrl" using assms(2) by simp
  show ?thesis
    unfolding addRemoteServer_bad_url[OF assms(1) False u]
    using False failed_add_state[of "''Failed to add remote MCP server:''" h] by simp
qed

lemmas add_eval = addRemoteServer_def readAndValidateMcpSettingsFile_def getMcpSettingsFilePath_def
  readFile_def add_failed_def template_def Let_def

theorem addRemoteServer_rejects_witness:
  "readAndValidateMcpSettingsFile env_ok hub_AXY = (Some [(''A'', stdio_config)], hub_AXY)
   \<and> ''A'' \<in> set (map fst [(''A'', stdio_config)])
   \<and> fst (addRemoteServer env_ok ''A'' ''http://localhost:3000/sse'' hub_AXY) =
       Inl (Error (''An MCP server with the name '' @ quoted ''A'' @ '' already exists''))
   \<and> connections (snd (addRemoteServer env_ok ''A'' ''http://localhost:3000/sse'' hub_AXY)) =
       connections hub_AXY
   \<and> settingsFile (snd (addRemoteServer env_ok ''A'' ''http://localhost:3000/sse'' hub_AXY)) =
       settingsFile hub_AXY
   \<and> trace (snd (addRemoteServer env_ok ''A'' ''http://localhost:3000/sse'' hub_AXY)) =
       [ConsoleError ''Failed to add remote MCP server:'']"
proof -
  have r: "readAndValidateMcpSettingsFile env_ok hub_AXY = (Some [(''A'', stdio_config)], hub_AXY)"
    by (simp add: add_eval hub_AXY_def env_ok_def empty_hub_def)
  have m: "''A'' \<in> set (map fst [(''A'', stdio_config)]) \<or>
           \<not> url_valid env_ok ''http://localhost:3000/sse''"
    by simp
  show ?thesis
    using addRemoteServer_rejects[OF r m] r
    by (simp add: hub_AXY_def empty_hub_def)
qed

text \<open>
  The claim C10 says that the settings file is not written in the failure cases. With no
  settings file on disk and a URL that fails validation, the call fails and has written
  the file.
\<close>

theorem addRemoteServer_creates_missing_file:
  "settingsFile hub_nofile = None
   \<and> \<not> url_valid env_ok ''not a url''
   \<and> fst (addRemoteServer env_ok ''S'' ''not a url'' hub_nofile) =
       Inl (Error (''Invalid server URL: '' @ ''not a url'' @ ''. Please provide a valid URL.''))
   \<and> settingsFile (snd (addRemoteServer env_ok ''S'' ''not a url'' hub_nofile)) = Some template
   \<and> trace (snd (addRemoteServer env_ok ''S'' ''not a url'' hub_nofile)) =
       [WriteFile template, ConsoleError ''Failed to add remote MCP server:'']"
  by (simp add: add_eval hub_nofile_def env_ok_def empty_hub_def emit_def)

subsection \<open>Connecting\<close>

lemma update_first_append:
  "(\<forall>x\<in>set xs. \<not> P x) \<Longrightarrow> P c \<Longrightarrow> update_first P f (xs @ [c]) = xs @ [f c]"
  by (induction xs) auto

lemma find_append_last:
  "(\<forall>x\<in>set xs. \<not> P x) \<Longrightarrow> P c \<Longrightarrow> find P (xs @ [c]) = Some c"
  by (induction xs) auto

lemma ensured_emit [simp]: "ensured (emit e h) = ensured h"
  by (simp add: getMcpSettingsFilePath_def readFile_def split: option.splits)

lemma ensured_idem [simp]: "ensured (getMcpSettingsFilePath h) = ensured h"
  by (simp add: getMcpSettingsFilePath_def readFile_def split: option.splits)

lemma ensured_update_connection [simp]: "ensured (update_connection nm f h) = ensured h"
  by (simp add: getMcpSettingsFilePath_def readFile_def update_connection_def split: option.splits)

lemma ensured_connections_update [simp]: "ensured (h\<lparr>connections := xs\<rparr>) = ensured h"
  by (simp add: getMcpSettingsFilePath_def readFile_def split: option.splits)

lemma getMcpSettingsFilePath_clientVersion [simp]:
  "clientVersion (getMcpSettingsFilePath h) = clientVersion h"
  by (simp add: getMcpSettingsFilePath_def split: option.splits)

lemma update_connection_connections [simp]:
  "connections (update_connection nm f h) = update_first (named nm) f (connections h)"
  by (simp add: update_connection_def)

lemma make_transport_state:
  "snd (make_transport ev nm cfg h) =
     (if cfg_type cfg = Some ''stdio'' then emit (TransportStart nm) h else h)"
  by (simp add: make_transport_def Let_def split: option.splits)

lemma make_transport_fst:
  "fst (make_transport ev nm cfg h) = fst (make_transport ev nm cfg h')"
  by (simp add: make_transport_def Let_def split: option.splits)

lemma fetchToolsList_frame:
  "connections (snd (fetchToolsList ev nm h)) = connections h \<and>
   clientVersion (snd (fetchToolsList ev nm h)) = clientVersion h \<and>
   ensured (snd (fetchToolsList ev nm h)) = ensured h"
  by (simp add: fetchToolsList_def Let_def split: option.splits)

lemma fetchResourcesList_frame:
  "connections (snd (fetchResourcesList ev nm h)) = connections h \<and>
   clientVersion (snd (fetchResourcesList ev nm h)) = clientVersion h \<and>
   ensured (snd (fetchResourcesList ev nm h)) = ensured h"
  by (simp add: fetchResourcesList_def Let_def split: option.splits)

lemma fetchResourceTemplatesList_frame:
  "connections (snd (fetchResourceTemplatesList ev nm h)) = connections h \<and>
   clientVersion (snd (fetchResourceTemplatesList ev nm h)) = clientVersion h \<and>
   ensured (snd (fetchResourceTemplatesList ev nm h)) = ensured h"
  by (simp add: fetchResourceTemplatesList_def Let_def split: option.splits)

lemma fetchToolsList_enabled:
  assumes "find (named nm) (connections h) = Some conn"
    and "\<not> truthy (disabled (server conn))" and "client conn = Some cl"
  shows "fst (fetchToolsList ev nm h) =
     (case tools_list ev nm of
        None \<Rightarrow> []
      | Some ts \<Rightarrow>
          (case annotate (ensured h) nm ts of
                                   None \<Rightarrow> []
                                 | Some marked \<Rightarrow> marked))"
  using assms
  by (simp add: fetchToolsList_def Let_def split: option.splits)

lemma fetchResourcesList_enabled:
  assumes "find (named nm) (connections h) = Some conn"
    and "\<not> truthy (disabled (server conn))" and "client conn = Some cl"
  shows "fst (fetchResourcesList ev nm h) =
     (case resources_list ev nm of None \<Rightarrow> [] | Some rs \<Rightarrow> rs)"
  using assms by (simp add: fetchResourcesList_def Let_def split: option.splits)

lemma fetchResourceTemplatesList_enabled:
  assumes "find (named nm) (connections h) = Some conn"
    and "\<not> truthy (disabled (server conn))" and "client conn = Some cl"
  shows "fst (fetchResourceTemplatesList ev nm h) =
     (case templates_list ev nm of None \<Rightarrow> [] | Some rs \<Rightarrow> rs)"
  using assms by (simp add: fetchResourceTemplatesList_def Let_def split: option.splits)

lemmas setters = set_connected_def set_disconnected_def set_tools_def set_resources_def
  set_resourceTemplates_def set_disabled_def

lemma named_setters [simp]:
  "named nm (set_connected c) = named nm c"
  "named nm (set_disconnected c) = named nm c"
  "named nm (set_tools ts c) = named nm c"
  "named nm (set_resources rs c) = named nm c"
  "named nm (set_resourceTemplates rts c) = named nm c"
  "named nm (set_disabled b c) = named nm c"
  "named nm (appendErrorMessage c msg) = named nm c"
  "named nm (new_connection nm' cfg cl tr) = (nm' = nm)"
  "named nm (disabledConnection nm' cfg) = (nm' = nm)"
  by (simp_all add: named_def setters appendErrorMessage_def new_connection_def
      disabledConnection_def)

lemma enabled_setters [simp]:
  "disabled (server (set_connected c)) = disabled (server c)"
  "disabled (server (set_tools ts c)) = disabled (server c)"
  "disabled (server (set_resources rs c)) = disabled (server c)"
  "disabled (server (new_connection nm cfg cl tr)) = cfg_disabled cfg"
  "client (set_connected c) = client c"
  "client (set_tools ts c) = client c"
  "client (set_resources rs c) = client c"
  "client (new_connection nm cfg cl tr) = Some cl"
  by (simp_all add: setters new_connection_def)

text \<open>The connection a successful connect leaves in the registry.\<close>

lemma connect_body_closed:
  assumes fresh: "\<forall>x\<in>set (connections h). \<not> named nm x"
    and nd: "\<not> truthy (cfg_disabled cfg)"
  shows "fst (connect_body ev nm cfg h) =
           (case fst (make_transport ev nm cfg h) of
              Inl e \<Rightarrow> Inl e
            | Inr tr \<Rightarrow> (case client_connect ev nm of Some msg \<Rightarrow> Inl (Error msg) | None \<Rightarrow> Inr ()))
       \<and> connections (snd (connect_body ev nm cfg h)) =
           connections h @
           (case fst (make_transport ev nm cfg h) of
              Inl e \<Rightarrow> []
            | Inr tr \<Rightarrow>
                [case client_connect ev nm of
                   Some msg \<Rightarrow> new_connection nm cfg (Client (clientVersion h)) tr
                 | None \<Rightarrow>
                     set_resourceTemplates
                       (case templates_list ev nm of None \<Rightarrow> [] | Some rs \<Rightarrow> rs)
                       (set_resources (case resources_list ev nm of None \<Rightarrow> [] | Some rs \<Rightarrow> rs)
                         (set_tools
                           (case tools_list ev nm of
                              None \<Rightarrow> []
                            | Some ts \<Rightarrow>
                                (case annotate (ensured h) nm ts of
                                   None \<Rightarrow> []
                                 | Some marked \<Rightarrow> marked))
                           (set_connected (new_connection nm cfg (Client (clientVersion h)) tr))))])
       \<and> clientVersion (snd (connect_body ev nm cfg h)) = clientVersion h
       \<and> ensured (snd (connect_body ev nm cfg h)) = ensured h"
proof -
  obtain r h1 where mt: "make_transport ev nm cfg h = (r, h1)"
    by (cases "make_transport ev nm cfg h")
  have h1: "h1 = (if cfg_type cfg = Some ''stdio'' then emit (TransportStart nm) h else h)"
    using make_transport_state[of ev nm cfg h] mt by simp
  then have h1c: "connections h1 = connections h" "clientVersion h1 = clientVersion h"
    "ensured h1 = ensured h" by simp_all
  show ?thesis
  proof (cases r)
    case (Inl e)
    then show ?thesis using mt h1c by (simp add: connect_body_def)
  next
    case (Inr tr)
    let ?c0 = "new_connection nm cfg (Client (clientVersion h)) tr"
    let ?h3 = "emit (ClientConnect nm) (h1\<lparr>connections := connections h1 @ [?c0]\<rparr>)"
    show ?thesis
    proof (cases "client_connect ev nm")
      case (Some msg)
      then show ?thesis using mt Inr h1c by (simp add: connect_body_def Let_def)
    next
      case None
      let ?c1 = "set_connected ?c0"
      let ?h4 = "update_connection nm set_connected ?h3"
      have c4: "connections ?h4 = connections h @ [?c1]"
        using fresh by (simp add: h1c update_first_append)
      obtain ts h5 where ft: "fetchToolsList ev nm ?h4 = (ts, h5)"
        by (cases "fetchToolsList ev nm ?h4")
      have f4: "find (named nm) (connections ?h4) = Some ?c1"
        unfolding c4 using fresh by (simp add: find_append_last)
      have ts: "ts = (case tools_list ev nm of
                              None \<Rightarrow> []
                            | Some ts \<Rightarrow>
                                (case annotate (ensured h) nm ts of
                                   None \<Rightarrow> []
                                 | Some marked \<Rightarrow> marked))"
      proof -
        have e4: "ensured ?h4 = ensured h" by (simp add: h1c)
        show ?thesis
          using fetchToolsList_enabled[OF f4, of "Client (clientVersion h)" ev] nd ft
          unfolding e4 by simp
      qed
      have s5: "connections h5 = connections h @ [?c1]" "clientVersion h5 = clientVersion h"
        "ensured h5 = ensured h"
        using fetchToolsList_frame[of ev nm ?h4] ft c4 by (simp_all add: h1c)
      let ?c2 = "set_tools ts ?c1"
      let ?h6 = "update_connection nm (set_tools ts) h5"
      have c6: "connections ?h6 = connections h @ [?c2]"
        using fresh by (simp add: s5 update_first_append)
      have f6: "find (named nm) (connections ?h6) = Some ?c2"
        unfolding c6 using fresh by (simp add: find_append_last)
      obtain rs h7 where fr: "fetchResourcesList ev nm ?h6 = (rs, h7)"
        by (cases "fetchResourcesList ev nm ?h6")
      have rs: "rs = (case resources_list ev nm of None \<Rightarrow> [] | Some rs \<Rightarrow> rs)"
        using fetchResourcesList_enabled[OF f6, of "Client (clientVersion h)" ev] nd fr by simp
      have s7: "connections h7 = connections h @ [?c2]" "clientVersion h7 = clientVersion h"
        "ensured h7 = ensured h"
        using fetchResourcesList_frame[of ev nm ?h6] fr c6 s5 by simp_all
      let ?c3 = "set_resources rs ?c2"
      let ?h8 = "update_connection nm (set_resources rs) h7"
      have c8: "connections ?h8 = connections h @ [?c3]"
        using fresh by (simp add: s7 update_first_append)
      have f8: "find (named nm) (connections ?h8) = Some ?c3"
        unfolding c8 using fresh by (simp add: find_append_last)
      obtain rts h9 where frt: "fetchResourceTemplatesList ev nm ?h8 = (rts, h9)"
        by (cases "fetchResourceTemplatesList ev nm ?h8")
      have rts: "rts = (case templates_list ev nm of None \<Rightarrow> [] | Some rs \<Rightarrow> rs)"
        using fetchResourceTemplatesList_enabled[OF f8, of "Client (clientVersion h)" ev] nd frt
        by simp
      have s9: "connections h9 = connections h @ [?c3]" "clientVersion h9 = clientVersion h"
        "ensured h9 = ensured h"
        using fetchResourceTemplatesList_frame[of ev nm ?h8] frt c8 s7 by simp_all
      have body: "connect_body ev nm cfg h =
                    (Inr (), update_connection nm (set_resourceTemplates rts) h9)"
        using mt Inr None ft fr frt by (simp add: connect_body_def Let_def h1c)
      show ?thesis
        unfolding body using fresh mt Inr None s9 ts rs rts
        by (simp add: update_first_append)
    qed
  qed
qed

lemma connectToServer_closed:
  "fst (connectToServer ev nm cfg src h) =
     (if truthy (cfg_disabled cfg) then Inr ()
      else case fst (make_transport ev nm cfg h) of
             Inl e \<Rightarrow> Inl e
           | Inr tr \<Rightarrow> (case client_connect ev nm of Some msg \<Rightarrow> Inl (Error msg) | None \<Rightarrow> Inr ()))
   \<and> connections (snd (connectToServer ev nm cfg src h)) =
       filter (\<lambda>conn. name (server conn) \<noteq> nm) (connections h) @
       (if truthy (cfg_disabled cfg) then [disabledConnection nm cfg]
        else case fst (make_transport ev nm cfg h) of
               Inl e \<Rightarrow> []
             | Inr tr \<Rightarrow>
                 [case client_connect ev nm of
                    Some msg \<Rightarrow>
                      appendErrorMessage
                        (set_disconnected (new_connection nm cfg (Client (clientVersion h)) tr)) msg
                  | None \<Rightarrow>
                      set_resourceTemplates
                        (case templates_list ev nm of None \<Rightarrow> [] | Some rs \<Rightarrow> rs)
                        (set_resources (case resources_list ev nm of None \<Rightarrow> [] | Some rs \<Rightarrow> rs)
                          (set_tools
                            (case tools_list ev nm of
                               None \<Rightarrow> []
                             | Some ts \<Rightarrow>
                                 (case annotate (ensured h) nm ts of
                                   None \<Rightarrow> []
                                 | Some marked \<Rightarrow> marked))
                            (set_connected
                              (new_connection nm cfg (Client (clientVersion h)) tr))))])
   \<and> clientVersion (snd (connectToServer ev nm cfg src h)) = clientVersion h
   \<and> ensured (snd (connectToServer ev nm cfg src h)) = ensured h"
proof (cases "truthy (cfg_disabled cfg)")
  case True
  then show ?thesis by (simp add: connectToServer_def Let_def)
next
  case nd: False
  let ?others = "filter (\<lambda>conn. name (server conn) \<noteq> nm) (connections h)"
  let ?h0 = "h\<lparr>connections := ?others\<rparr>"
  have fresh: "\<forall>x\<in>set (connections ?h0). \<not> named nm x" by (simp add: named_def)
  have mt: "fst (make_transport ev nm cfg ?h0) = fst (make_transport ev nm cfg h)"
    by (rule make_transport_fst)
  have e0: "ensured ?h0 = ensured h" by simp
  note cb = connect_body_closed[OF fresh nd, of ev, unfolded e0 mt]
  obtain r h1 where b: "connect_body ev nm cfg ?h0 = (r, h1)"
    by (cases "connect_body ev nm cfg ?h0")
  show ?thesis
  proof (cases "fst (make_transport ev nm cfg h)")
    case (Inl e)
    obtain m where e: "e = Error m" by (cases e)
    have r: "r = Inl (Error m)" and c1: "connections h1 = ?others"
      and v1: "clientVersion h1 = clientVersion h" and e1: "ensured h1 = ensured h"
      using cb b mt Inl e by simp_all
    have "find (named nm) ?others = None"
      by (simp add: find_None_iff named_def)
    then show ?thesis
      using nd Inl e r c1 v1 e1 b
      by (simp add: connectToServer_def findConnection_def)
  next
    case (Inr tr)
    show ?thesis
    proof (cases "client_connect ev nm")
      case None
      have "r = Inr ()" using cb b mt Inr None by simp
      then show ?thesis
        using nd Inr None cb b mt by (simp add: connectToServer_def)
    next
      case (Some msg)
      let ?c0 = "new_connection nm cfg (Client (clientVersion h)) tr"
      have r: "r = Inl (Error msg)" and c1: "connections h1 = ?others @ [?c0]"
        and v1: "clientVersion h1 = clientVersion h" and e1: "ensured h1 = ensured h"
        using cb b mt Inr Some by simp_all
      have f: "find (named nm) (connections h1) = Some ?c0"
        unfolding c1 by (rule find_append_last) (simp_all add: named_def new_connection_def)
      have u: "update_first (named nm) (\<lambda>c. appendErrorMessage (set_disconnected c) msg)
                 (?others @ [?c0]) = ?others @ [appendErrorMessage (set_disconnected ?c0) msg]"
        by (rule update_first_append) (simp_all add: named_def new_connection_def)
      show ?thesis
        using nd Inr Some r f b v1 e1 u c1
        by (simp add: connectToServer_def findConnection_def)
    qed
  qed
qed

subsection \<open>What a connect leaves in the registry\<close>

lemmas hub_eval = updateServerConnections_def reconcile_def update_or_add_def connectToServer_def
  connect_body_def make_transport_def fetchToolsList_def fetchResourcesList_def
  fetchResourceTemplatesList_def deleteConnection_def close_both_def
  notifyWebviewOfServerChanges_def getSortedMcpServers_def keys_of_def
  getMcpSettingsFilePath_def readFile_def writeFile_def update_connection_def
  findConnection_def setupFileWatcher_def removeAllFileWatchers_def
  new_connection_def setters appendErrorMessage_def
  annotate_def includes_name_def or_empty_def autoApproveConfig_def truthy_def deepEqual_def template_def emit_def Let_def

lemma filter_named_others [simp]:
  "filter (named nm) (filter (\<lambda>conn. name (server conn) \<noteq> nm) xs) = []"
  by (induction xs) (auto simp: named_def)

lemma annotate_cases:
  "annotate NotJson nm ts = None"
  "annotate (Json None) nm ts = None"
  "autoApproveConfig servers nm = ApproveArray l \<Longrightarrow>
   annotate (Json (Some servers)) nm ts =
     Some (map (\<lambda>t. t\<lparr>tool_autoApprove := Some (tool_name t \<in> set l)\<rparr>) ts)"
  "autoApproveConfig servers nm = ApproveString s \<Longrightarrow>
   annotate (Json (Some servers)) nm ts =
     Some (map (\<lambda>t. t\<lparr>tool_autoApprove := Some (str_includes s (tool_name t))\<rparr>) ts)"
  "autoApproveConfig servers nm = ApproveOther \<Longrightarrow>
   annotate (Json (Some servers)) nm ts = (if ts = [] then Some [] else None)"
proof -
  show "annotate NotJson nm ts = None" "annotate (Json None) nm ts = None"
    by (simp_all add: annotate_def)
  show "annotate (Json (Some servers)) nm ts =
     Some (map (\<lambda>t. t\<lparr>tool_autoApprove := Some (tool_name t \<in> set l)\<rparr>) ts)"
    if "autoApproveConfig servers nm = ApproveArray l"
    using that by (induction ts) (simp_all add: annotate_def includes_name_def)
  show "annotate (Json (Some servers)) nm ts =
     Some (map (\<lambda>t. t\<lparr>tool_autoApprove := Some (str_includes s (tool_name t))\<rparr>) ts)"
    if "autoApproveConfig servers nm = ApproveString s"
    using that by (induction ts) (simp_all add: annotate_def includes_name_def)
  show "annotate (Json (Some servers)) nm ts = (if ts = [] then Some [] else None)"
    if "autoApproveConfig servers nm = ApproveOther"
    using that by (cases ts) (simp_all add: annotate_def includes_name_def)
qed

text \<open>
  C7, as the code has it. After a connect that succeeds (the transport is built and the
  handshake returns), the registry has one entry of the name; it is \<open>connected\<close>
  whatever the three requests answer, its resources and its resource templates are the
  empty list when their own request failed and their own response otherwise. Its tool
  list is the empty list when \<^verbatim>\<open>tools/list\<close> failed. When \<^verbatim>\<open>tools/list\<close> answered,
  the tool list is that answer, each tool marked from the auto-approve value of the
  server in the settings file, if the file is JSON with an \<^verbatim>\<open>mcpServers\<close> object and
  the value is an array (also the empty one of an absent value) or a string; and it is
  the empty list if the file is not JSON, has no \<^verbatim>\<open>mcpServers\<close>, or has another value
  there, since \<open>fetchToolsList\<close> reads and applies the value inside the \<^verbatim>\<open>try\<close> block of
  the request.
\<close>

theorem discovery_degrades:
  assumes "\<not> truthy (cfg_disabled cfg)"
    and "fst (make_transport ev nm cfg h) = Inr tr"
    and "client_connect ev nm = None"
  shows "fst (connectToServer ev nm cfg src h) = Inr ()
     \<and> map (\<lambda>c. (status (server c), resources (server c), resourceTemplates (server c)))
          (filter (named nm) (connections (snd (connectToServer ev nm cfg src h)))) =
         [(connected,
           Some (case resources_list ev nm of None \<Rightarrow> [] | Some rs \<Rightarrow> rs),
           Some (case templates_list ev nm of None \<Rightarrow> [] | Some rts \<Rightarrow> rts))]
     \<and> (tools_list ev nm = None \<longrightarrow>
          map (\<lambda>c. tools (server c))
            (filter (named nm) (connections (snd (connectToServer ev nm cfg src h)))) =
          [Some []])
     \<and> (\<forall>ts servers l. tools_list ev nm = Some ts \<and> ensured h = Json (Some servers) \<and>
            autoApproveConfig servers nm = ApproveArray l \<longrightarrow>
          map (\<lambda>c. tools (server c))
            (filter (named nm) (connections (snd (connectToServer ev nm cfg src h)))) =
          [Some (map (\<lambda>t. t\<lparr>tool_autoApprove := Some (tool_name t \<in> set l)\<rparr>) ts)])
     \<and> (\<forall>ts servers s. tools_list ev nm = Some ts \<and> ensured h = Json (Some servers) \<and>
            autoApproveConfig servers nm = ApproveString s \<longrightarrow>
          map (\<lambda>c. tools (server c))
            (filter (named nm) (connections (snd (connectToServer ev nm cfg src h)))) =
          [Some (map (\<lambda>t. t\<lparr>tool_autoApprove := Some (str_includes s (tool_name t))\<rparr>) ts)])
     \<and> (\<forall>ts servers. tools_list ev nm = Some ts \<and>
            (ensured h = NotJson \<or> ensured h = Json None \<or>
             (ensured h = Json (Some servers) \<and> autoApproveConfig servers nm = ApproveOther)) \<longrightarrow>
          map (\<lambda>c. tools (server c))
            (filter (named nm) (connections (snd (connectToServer ev nm cfg src h)))) =
          [Some []])"
proof -
  note c = connectToServer_closed[of ev nm cfg src h]
  have entry: "filter (named nm) (connections (snd (connectToServer ev nm cfg src h))) =
    [set_resourceTemplates (case templates_list ev nm of None \<Rightarrow> [] | Some rs \<Rightarrow> rs)
       (set_resources (case resources_list ev nm of None \<Rightarrow> [] | Some rs \<Rightarrow> rs)
         (set_tools
            (case tools_list ev nm of
               None \<Rightarrow> []
             | Some ts \<Rightarrow>
                 (case annotate (ensured h) nm ts of None \<Rightarrow> [] | Some marked \<Rightarrow> marked))
            (set_connected (new_connection nm cfg (Client (clientVersion h)) tr))))]"
    using assms c by (simp add: named_def setters new_connection_def)
  have r: "fst (connectToServer ev nm cfg src h) = Inr ()"
    using assms c by simp
  have t: "map (\<lambda>c. tools (server c))
            (filter (named nm) (connections (snd (connectToServer ev nm cfg src h)))) =
           [Some (case tools_list ev nm of
               None \<Rightarrow> []
             | Some ts \<Rightarrow>
                 (case annotate (ensured h) nm ts of None \<Rightarrow> [] | Some marked \<Rightarrow> marked))]"
    unfolding entry by (simp add: setters new_connection_def)
  have o: "map (\<lambda>c. (status (server c), resources (server c), resourceTemplates (server c)))
          (filter (named nm) (connections (snd (connectToServer ev nm cfg src h)))) =
         [(connected,
           Some (case resources_list ev nm of None \<Rightarrow> [] | Some rs \<Rightarrow> rs),
           Some (case templates_list ev nm of None \<Rightarrow> [] | Some rts \<Rightarrow> rts))]"
    unfolding entry by (simp add: setters new_connection_def)
  show ?thesis
    unfolding t using r o by (auto simp: annotate_cases)
qed

theorem discovery_degrades_witness:
  "\<not> truthy (cfg_disabled stdio_config)
   \<and> fst (make_transport env_resources_fail ''A'' stdio_config empty_hub) =
       Inr (StdioClientTransport (Some ''node'') (Some [''build/index.js'']))
   \<and> client_connect env_resources_fail ''A'' = None
   \<and> tools_list env_resources_fail ''A'' = Some [a_tool]
   \<and> ensured empty_hub = Json (Some [])
   \<and> autoApproveConfig [] ''A'' = ApproveArray []
   \<and> resources_list env_resources_fail ''A'' = None
   \<and> fst (connectToServer env_resources_fail ''A'' stdio_config internal empty_hub) = Inr ()
   \<and> map (\<lambda>c. (status (server c), resources (server c), resourceTemplates (server c)))
        (filter (named ''A'')
           (connections (snd (connectToServer env_resources_fail ''A'' stdio_config internal
              empty_hub)))) =
       [(connected, Some [], Some [McpResourceTemplate ''file:///{x}''])]
   \<and> map (\<lambda>c. tools (server c))
        (filter (named ''A'')
           (connections (snd (connectToServer env_resources_fail ''A'' stdio_config internal
              empty_hub)))) =
       [Some [\<lparr>tool_name = ''search'', tool_autoApprove = Some False\<rparr>]]"
proof -
  have a: "\<not> truthy (cfg_disabled stdio_config)"
    by (simp add: truthy_def stdio_config_def no_config_def)
  have b: "fst (make_transport env_resources_fail ''A'' stdio_config empty_hub) =
       Inr (StdioClientTransport (Some ''node'') (Some [''build/index.js'']))"
    by (simp add: make_transport_def env_resources_fail_def env_ok_def stdio_config_def
        no_config_def Let_def)
  have c: "client_connect env_resources_fail ''A'' = None"
    by (simp add: env_resources_fail_def env_ok_def)
  have d: "tools_list env_resources_fail ''A'' = Some [a_tool]"
    "ensured empty_hub = Json (Some [])" "autoApproveConfig [] ''A'' = ApproveArray []"
    "resources_list env_resources_fail ''A'' = None"
    "templates_list env_resources_fail ''A'' = Some [McpResourceTemplate ''file:///{x}'']"
    by (simp_all add: env_resources_fail_def env_ok_def empty_hub_def getMcpSettingsFilePath_def
        readFile_def autoApproveConfig_def)
  show ?thesis
    using discovery_degrades[OF a b c, of internal] a b c d
    by (simp add: a_tool_def)
qed

text \<open>
  The claim C7 lets a category be empty only when its own request failed. Here
  \<^verbatim>\<open>tools/list\<close> succeeds and \<^verbatim>\<open>resources/list\<close> fails, and both lists are empty: once
  with a settings file that is not JSON, once with a settings file whose
  \<^verbatim>\<open>autoApprove\<close> for the server is \<^verbatim>\<open>true\<close>.
\<close>

theorem discovery_needs_settings_file:
  "tools_list env_resources_fail ''A'' = Some [a_tool]
   \<and> resources_list env_resources_fail ''A'' = None
   \<and> ensured hub_badfile = NotJson
   \<and> fst (connectToServer env_resources_fail ''A'' stdio_config internal hub_badfile) = Inr ()
   \<and> map (\<lambda>c. (status (server c), tools (server c), resources (server c),
                resourceTemplates (server c)))
        (connections (snd (connectToServer env_resources_fail ''A'' stdio_config internal
           hub_badfile))) =
       [(connected, Some [], Some [], Some [McpResourceTemplate ''file:///{x}''])]
   \<and> read_autoApprove hub_other ''A'' = Some ApproveOther
   \<and> fst (connectToServer env_resources_fail ''A'' stdio_config internal hub_other) = Inr ()
   \<and> map (\<lambda>c. (status (server c), tools (server c), resources (server c),
                resourceTemplates (server c)))
        (connections (snd (connectToServer env_resources_fail ''A'' stdio_config internal
           hub_other))) =
       [(connected, Some [], Some [], Some [McpResourceTemplate ''file:///{x}''])]"
  by (simp add: hub_eval env_resources_fail_def hub_badfile_def hub_other_def
      read_autoApprove_def example_defs)

text \<open>
  A handshake that throws leaves the pushed entry in the registry, \<open>disconnected\<close> and
  with the message as its error text.
\<close>

lemma handshake_failure_recorded:
  assumes "\<not> truthy (cfg_disabled cfg)"
    and "fst (make_transport ev nm cfg h) = Inr tr"
    and "client_connect ev nm = Some msg"
  shows "fst (connectToServer ev nm cfg src h) = Inl (Error msg)
     \<and> map (\<lambda>c. (status (server c), error (server c)))
          (filter (named nm) (connections (snd (connectToServer ev nm cfg src h)))) =
         [(disconnected, Some msg)]"
  using assms connectToServer_closed[of ev nm cfg src h]
  by (simp add: setters new_connection_def named_def appendErrorMessage_def)

text \<open>
  C6. The process of the stdio server \<open>A\<close> cannot be started: \<^verbatim>\<open>transport.start()\<close>
  throws before the connection is pushed, the catch block of \<open>connectToServer\<close> finds no
  entry to mark, and the registry holds no entry for \<open>A\<close> afterwards, neither after
  \<open>connectToServer\<close> alone nor after the reconciliation pass, which goes on to connect
  \<open>B\<close>.
\<close>

theorem failed_start_leaves_no_entry:
  "transport_start env_start_fails ''A'' = Some ''spawn node ENOENT''
   \<and> fst (connectToServer env_start_fails ''A'' stdio_config internal empty_hub) =
       Inl (Error ''spawn node ENOENT'')
   \<and> connections (snd (connectToServer env_start_fails ''A'' stdio_config internal empty_hub)) = []
   \<and> map (\<lambda>c. (name (server c), status (server c)))
       (connections (snd (updateServerConnections env_start_fails
          [(''A'', stdio_config), (''B'', sse_config)] empty_hub))) = [(''B'', connected)]"
  by (simp add: hub_eval env_start_fails_def example_defs)

text \<open>
  A disabled configuration gives an entry without client and transport.
\<close>

lemma disabled_entry_has_no_transport:
  assumes "truthy (cfg_disabled cfg)"
  shows "fst (connectToServer ev nm cfg src h) = Inr ()
     \<and> filter (named nm) (connections (snd (connectToServer ev nm cfg src h))) =
         [disabledConnection nm cfg]
     \<and> client (disabledConnection nm cfg) = None
     \<and> transport (disabledConnection nm cfg) = None
     \<and> disabled (server (disabledConnection nm cfg)) = Some True"
  using assms connectToServer_closed[of ev nm cfg src h]
  by (simp add: disabledConnection_def named_def)

text \<open>
  C1. The server \<open>A\<close> is connected by a reconciliation pass and then disabled with
  \<open>toggleServerDisabledRPC\<close>: the entry has \<open>disabled = true\<close> and still holds its
  client and its transport.
\<close>

theorem toggle_disabled_keeps_transport:
  "map (\<lambda>c. (name (server c), disabled (server c), client c, transport c))
     (connections (snd (updateServerConnections env_ok [(''A'', stdio_config)] hub_file_A))) =
     [(''A'', None, Some (Client ''1.0''),
       Some (StdioClientTransport (Some ''node'') (Some [''build/index.js''])))]
   \<and> map (\<lambda>c. (name (server c), disabled (server c), client c, transport c))
     (connections (snd (toggleServerDisabledRPC env_ok ''A'' True
        (snd (updateServerConnections env_ok [(''A'', stdio_config)] hub_file_A))))) =
     [(''A'', Some True, Some (Client ''1.0''),
       Some (StdioClientTransport (Some ''node'') (Some [''build/index.js''])))]"
  by (simp add: hub_eval toggleServerDisabledRPC_def readAndValidateMcpSettingsFile_def
      hub_file_A_def example_defs)

subsection \<open>The effects of connecting and deleting\<close>



lemma ext_refl [simp]: "extends_with P h h"
  by (simp add: extends_with_def)


















lemma setupFileWatcher_trace [simp]: "trace (setupFileWatcher nm cfg h) = trace h"
  by (simp add: setupFileWatcher_def split: option.splits)


subsection \<open>The entries of a name\<close>


lemma entries_others:
  "n \<noteq> m \<Longrightarrow>
   filter (named n) (filter (\<lambda>conn. name (server conn) \<noteq> m) xs) = filter (named n) xs"
  by (induction xs) (auto simp: named_def)


lemma entries_own_removed [simp]:
  "filter (\<lambda>x. name (server x) \<noteq> nm \<and> named nm x) xs = []"
  by (induction xs) (auto simp: named_def)






lemma setupFileWatcher_view [simp]:
  "clientVersion (setupFileWatcher nm cfg h) = clientVersion h"
  "settingsFile (setupFileWatcher nm cfg h) = settingsFile h"
  "connections (setupFileWatcher nm cfg h) = connections h"
  by (simp_all add: setupFileWatcher_def split: option.splits)



subsection \<open>The log of a server\<close>

lemma server_log_emit [simp]:
  "server_log nm (emit e h) = server_log nm h @ (if server_of e = Some nm then [e] else [])"
  by (simp add: server_log_def)

lemma server_log_same: "trace h' = trace h \<Longrightarrow> server_log nm h' = server_log nm h"
  by (simp add: server_log_def)

lemma server_log_update_connection [simp]:
  "server_log nm (update_connection n f h) = server_log nm h"
  by (simp add: server_log_def)

lemma server_log_getMcpSettingsFilePath [simp]:
  "server_log nm (getMcpSettingsFilePath h) = server_log nm h"
  by (simp add: getMcpSettingsFilePath_def split: option.splits) (simp add: server_log_def)









subsection \<open>One entry of the desired mapping\<close>









subsection \<open>The reconciliation loop, one name at a time\<close>

lemma agree_refl [simp]: "agree_on n h h"
  by (simp add: agree_on_def)












subsection \<open>The reconciliation pass, name by name\<close>



















end
